theory Spec2Isabelle
  imports Main "HOL-Library.Sublist"

begin

section \<open>JavaScript values and strings\<close>

text \<open>
  A JavaScript string is modelled by the list of bytes of its UTF-8 encoding, so the
  ASCII characters the client tests for are single \<open>char\<close>s and a request body is the
  byte sequence that goes on the wire.

  \<open>jsval\<close> is the type of the values the client handles at run time: \<open>undefined\<close>
  and the values \<open>JSON.parse\<close> produces. A number is kept as its literal: the client
  never computes with one, it only tests it for truthiness.
\<close>

datatype jsval =
    Undefined
  | JNull
  | JBool bool
  | JNum string
  | JStr string
  | JArr "jsval list"
  | JObj "(string \<times> jsval) list"

datatype jsnumber = NaN | Num int

datatype error =
    AuthenticationError string
  | RateLimitError string jsnumber
  | ForbiddenError jsval
  | NotFoundError string string
  | GoogleDriveApiError jsval nat
  | SyntaxError
  | TypeError
  | NetworkError string

definition is_digit :: "char \<Rightarrow> bool" where
  "is_digit c = (c \<in> set ''0123456789'')"

definition is_hex :: "char \<Rightarrow> bool" where
  "is_hex c = (c \<in> set ''0123456789abcdefABCDEF'')"

definition digit_val :: "char \<Rightarrow> nat" where
  "digit_val c = of_char c - 48"

definition hex_val :: "char \<Rightarrow> nat" where
  "hex_val c =
     (if is_digit c then of_char c - 48
      else if c \<in> set ''abcdef'' then of_char c - 87
      else of_char c - 55)"

text \<open>The value of a string of decimal digits, most significant first.\<close>

definition digits_val :: "string \<Rightarrow> nat" where
  "digits_val ds = foldl (\<lambda>a c. 10 * a + digit_val c) 0 ds"

text \<open>
  \<open>String(n)\<close> for an integer \<open>n\<close>: its decimal digits. (The platform writes an
  integer of 22 digits or more in exponent form; no status or page size is that large.)
\<close>

fun dec :: "nat \<Rightarrow> string" where
  "dec n = (if n < 10 then [''0123456789'' ! n] else dec (n div 10) @ [''0123456789'' ! (n mod 10)])"

declare dec.simps [simp del]

definition String_of_int :: "int \<Rightarrow> string" where
  "String_of_int i = (if i < 0 then CHR ''-'' # dec (nat (- i)) else dec (nat i))"

definition String_of_bool :: "bool \<Rightarrow> string" where
  "String_of_bool b = (if b then ''true'' else ''false'')"

fun join :: "string \<Rightarrow> string list \<Rightarrow> string" where
  "join sep [] = []"
| "join sep [x] = x"
| "join sep (x # y # ys) = x @ sep @ join sep (y # ys)"

text \<open>\<open>s.includes(p)\<close>: \<open>p\<close> occurs in \<open>s\<close> as a contiguous run.\<close>

fun str_includes :: "string \<Rightarrow> string \<Rightarrow> bool" where
  "str_includes [] p = (p = [])"
| "str_includes (c # cs) p = (prefix p (c # cs) \<or> str_includes cs p)"

definition ascii_lower :: "char \<Rightarrow> char" where
  "ascii_lower c =
     (case map_of (zip ''ABCDEFGHIJKLMNOPQRSTUVWXYZ'' ''abcdefghijklmnopqrstuvwxyz'') c of
        None \<Rightarrow> c
      | Some l \<Rightarrow> l)"

subsection \<open>Truthiness and property access\<close>

text \<open>
  A number literal denotes zero when its digits are all zero, or when it lies so close
  to zero that the nearest double is zero (at most \<open>2 ^ -1075\<close> in magnitude).
\<close>

definition num_truthy :: "string \<Rightarrow> bool" where
  "num_truthy l =
     (let body = (case l of [] \<Rightarrow> [] | c # r \<Rightarrow> if c = CHR ''-'' then r else l);
          mant = takeWhile (\<lambda>c. c \<noteq> CHR ''e'' \<and> c \<noteq> CHR ''E'') body;
          ex = drop (Suc (length mant)) body;
          ip = takeWhile is_digit mant;
          fp = drop (Suc (length ip)) mant;
          m = digits_val (ip @ fp);
          e = (case ex of [] \<Rightarrow> 0
               | c # r \<Rightarrow> if c = CHR ''-'' then - int (digits_val r)
                         else if c = CHR ''+'' then int (digits_val r)
                         else int (digits_val ex)) - int (length fp)
      in m \<noteq> 0 \<and> (0 \<le> e \<or> 10 ^ nat (- e) < m * 2 ^ 1075))"

fun truthy :: "jsval \<Rightarrow> bool" where
  "truthy Undefined = False"
| "truthy JNull = False"
| "truthy (JBool b) = b"
| "truthy (JNum l) = num_truthy l"
| "truthy (JStr s) = (s \<noteq> [])"
| "truthy (JArr vs) = True"
| "truthy (JObj kvs) = True"

text \<open>\<open>a || b\<close> on values.\<close>

definition js_or :: "jsval \<Rightarrow> jsval \<Rightarrow> jsval" where
  "js_or a b = (if truthy a then a else b)"

text \<open>\<open>s || d\<close> and \<open>if (s)\<close> on an optional string: absent and empty are falsy.\<close>

definition str_truthy :: "string option \<Rightarrow> bool" where
  "str_truthy s = (case s of None \<Rightarrow> False | Some t \<Rightarrow> t \<noteq> [])"

definition str_or :: "string option \<Rightarrow> string \<Rightarrow> string" where
  "str_or s d = (case s of None \<Rightarrow> d | Some t \<Rightarrow> if t \<noteq> [] then t else d)"

text \<open>
  \<open>v.k\<close>: reading a property of \<open>undefined\<close> or \<open>null\<close> throws a TypeError; an object
  yields the property's value or \<open>undefined\<close>. For the property names the client reads
  (none of them is \<open>length\<close> or a method of a prototype) every other value yields
  \<open>undefined\<close>.
\<close>

definition get_prop :: "jsval \<Rightarrow> string \<Rightarrow> error + jsval" where
  "get_prop v k =
     (case v of
        Undefined \<Rightarrow> Inl TypeError
      | JNull \<Rightarrow> Inl TypeError
      | JObj kvs \<Rightarrow> (case map_of kvs k of None \<Rightarrow> Inr Undefined | Some x \<Rightarrow> Inr x)
      | _ \<Rightarrow> Inr Undefined)"

text \<open>\<open>v?.k\<close>: \<open>undefined\<close> when \<open>v\<close> is \<open>undefined\<close> or \<open>null\<close>.\<close>

definition opt_prop :: "jsval \<Rightarrow> string \<Rightarrow> jsval" where
  "opt_prop v k = (case get_prop v k of Inl e \<Rightarrow> Undefined | Inr x \<Rightarrow> x)"

text \<open>
  Setting the property \<open>k\<close> of an object: an existing property keeps its place and
  takes the new value, a new one goes last.
\<close>

fun obj_set :: "(string \<times> 'a) list \<Rightarrow> string \<Rightarrow> 'a \<Rightarrow> (string \<times> 'a) list" where
  "obj_set [] k v = [(k, v)]"
| "obj_set ((k', v') # kvs) k v = (if k' = k then (k, v) # kvs else (k', v') # obj_set kvs k v)"

text \<open>Object spread \<open>{...a, ...b}\<close>.\<close>

definition spread :: "(string \<times> 'a) list \<Rightarrow> (string \<times> 'a) list \<Rightarrow> (string \<times> 'a) list" where
  "spread a b = foldl (\<lambda>acc (k, v). obj_set acc k v) a b"

section \<open>JSON.stringify and JSON.parse\<close>

definition hex_digit :: "nat \<Rightarrow> char" where
  "hex_digit n = ''0123456789abcdef'' ! (n mod 16)"

text \<open>
  QuoteJSONString: the quotation mark, the backslash and the control characters are
  escaped, every other byte stands for itself.
\<close>

definition quote_char :: "char \<Rightarrow> string" where
  "quote_char c =
     (if c = CHR 0x22 then [CHR 0x5C, CHR 0x22]
      else if c = CHR 0x5C then [CHR 0x5C, CHR 0x5C]
      else if c = CHR 0x08 then [CHR 0x5C, CHR ''b'']
      else if c = CHR 0x09 then [CHR 0x5C, CHR ''t'']
      else if c = CHR 0x0A then [CHR 0x5C, CHR ''n'']
      else if c = CHR 0x0C then [CHR 0x5C, CHR ''f'']
      else if c = CHR 0x0D then [CHR 0x5C, CHR ''r'']
      else if (of_char c :: nat) < 32 then
        [CHR 0x5C, CHR ''u'', CHR ''0'', CHR ''0'', hex_digit (of_char c div 16), hex_digit (of_char c)]
      else [c])"

definition quote :: "string \<Rightarrow> string" where
  "quote s = CHR 0x22 # concat (map quote_char s) @ [CHR 0x22]"

text \<open>
  SerializeJSONProperty without indentation: \<open>None\<close> is \<open>undefined\<close>. A property whose
  value is \<open>undefined\<close> is left out of an object; in an array it is written \<open>null\<close>.
\<close>

fun serialize :: "jsval \<Rightarrow> string option" where
  "serialize Undefined = None"
| "serialize JNull = Some ''null''"
| "serialize (JBool b) = Some (String_of_bool b)"
| "serialize (JNum l) = Some l"
| "serialize (JStr s) = Some (quote s)"
| "serialize (JArr vs) =
     Some (''['' @ join '','' (map (\<lambda>v. case serialize v of None \<Rightarrow> ''null'' | Some t \<Rightarrow> t) vs) @ '']'')"
| "serialize (JObj kvs) =
     Some (''{'' @ join '',''
        (concat (map (\<lambda>(k, v). case serialize v of None \<Rightarrow> [] | Some t \<Rightarrow> [quote k @ '':'' @ t]) kvs))
        @ ''}'')"

definition JSON_stringify :: "jsval \<Rightarrow> string option" where
  "JSON_stringify v = serialize v"

subsection \<open>The parser\<close>

definition is_ws :: "char \<Rightarrow> bool" where
  "is_ws c = (c = CHR '' '' \<or> c = CHR 0x09 \<or> c = CHR 0x0A \<or> c = CHR 0x0D)"

definition skip_ws :: "string \<Rightarrow> string" where
  "skip_ws s = dropWhile is_ws s"

text \<open>The UTF-8 bytes of a code point (a lone surrogate is encoded like any other).\<close>

definition utf8_encode :: "nat \<Rightarrow> string" where
  "utf8_encode cp =
     (if cp < 0x80 then [char_of cp]
      else if cp < 0x800 then [char_of (0xC0 + cp div 64), char_of (0x80 + cp mod 64)]
      else if cp < 0x10000 then
        [char_of (0xE0 + cp div 4096), char_of (0x80 + cp div 64 mod 64), char_of (0x80 + cp mod 64)]
      else
        [char_of (0xF0 + cp div 262144), char_of (0x80 + cp div 4096 mod 64),
         char_of (0x80 + cp div 64 mod 64), char_of (0x80 + cp mod 64)])"

definition hex4 :: "char \<Rightarrow> char \<Rightarrow> char \<Rightarrow> char \<Rightarrow> nat option" where
  "hex4 a b c d =
     (if is_hex a \<and> is_hex b \<and> is_hex c \<and> is_hex d
      then Some (4096 * hex_val a + 256 * hex_val b + 16 * hex_val c + hex_val d)
      else None)"

text \<open>
  The escape after a backslash: the bytes it denotes and the rest of the input. A high
  surrogate followed by the escape of a low surrogate denotes one code point.
\<close>

fun unescape :: "string \<Rightarrow> (string \<times> string) option" where
  "unescape [] = None"
| "unescape (c # cs) =
     (if c = CHR 0x22 then Some ([CHR 0x22], cs)
      else if c = CHR 0x5C then Some ([CHR 0x5C], cs)
      else if c = CHR ''/'' then Some (''/'', cs)
      else if c = CHR ''b'' then Some ([CHR 0x08], cs)
      else if c = CHR ''f'' then Some ([CHR 0x0C], cs)
      else if c = CHR ''n'' then Some ([CHR 0x0A], cs)
      else if c = CHR ''r'' then Some ([CHR 0x0D], cs)
      else if c = CHR ''t'' then Some ([CHR 0x09], cs)
      else if c = CHR ''u'' then
        (case cs of
           h1 # h2 # h3 # h4 # r \<Rightarrow>
             (case hex4 h1 h2 h3 h4 of
                None \<Rightarrow> None
              | Some u \<Rightarrow>
                  (if 0xD800 \<le> u \<and> u < 0xDC00 then
                     (case r of
                        b # x # g1 # g2 # g3 # g4 # r' \<Rightarrow>
                          (if b = CHR 0x5C \<and> x = CHR ''u'' then
                             (case hex4 g1 g2 g3 g4 of
                                None \<Rightarrow> Some (utf8_encode u, r)
                              | Some lo \<Rightarrow>
                                  if 0xDC00 \<le> lo \<and> lo < 0xE000
                                  then Some (utf8_encode (0x10000 + (u - 0xD800) * 1024 + (lo - 0xDC00)), r')
                                  else Some (utf8_encode u, r))
                           else Some (utf8_encode u, r))
                      | _ \<Rightarrow> Some (utf8_encode u, r))
                   else Some (utf8_encode u, r)))
         | _ \<Rightarrow> None)
      else None)"

lemma unescape_shorter: "unescape cs = Some (bs, rest) \<Longrightarrow> length rest < length cs"
  by (cases cs) (auto split: if_splits list.splits option.splits)

text \<open>
  The characters of a string literal after its opening quotation mark, up to the closing
  one: the string denoted and the rest of the input. A raw control character is a
  syntax error.
\<close>

function parse_chars :: "string \<Rightarrow> (string \<times> string) option" where
  "parse_chars [] = None"
| "parse_chars (c # cs) =
     (if c = CHR 0x22 then Some ([], cs)
      else if c = CHR 0x5C then
        (case unescape cs of
           None \<Rightarrow> None
         | Some (bs, rest) \<Rightarrow>
             (case parse_chars rest of None \<Rightarrow> None | Some (s, r) \<Rightarrow> Some (bs @ s, r)))
      else if (of_char c :: nat) < 32 then None
      else (case parse_chars cs of None \<Rightarrow> None | Some (s, r) \<Rightarrow> Some (c # s, r)))"
  by pat_completeness auto

termination
  by (relation "measure length") (auto dest: unescape_shorter)

text \<open>
  A number literal: \<open>-? (0 | [1-9][0-9]*) (. [0-9]+)? ([eE] [+-]? [0-9]+)?\<close>, the
  literal and the rest of the input.
\<close>

definition scan_frac :: "string \<Rightarrow> (string \<times> string) option" where
  "scan_frac s =
     (case s of
        [] \<Rightarrow> Some ([], s)
      | c # r \<Rightarrow>
          if c = CHR ''.'' then
            (if takeWhile is_digit r = [] then None
             else Some (c # takeWhile is_digit r, dropWhile is_digit r))
          else Some ([], s))"

definition scan_exp :: "string \<Rightarrow> (string \<times> string) option" where
  "scan_exp s =
     (case s of
        [] \<Rightarrow> Some ([], s)
      | c # r \<Rightarrow>
          if c = CHR ''e'' \<or> c = CHR ''E'' then
            (let (sg, r') = (case r of [] \<Rightarrow> ([], r)
                              | d # t \<Rightarrow> if d = CHR ''+'' \<or> d = CHR ''-'' then ([d], t) else ([], r))
             in if takeWhile is_digit r' = [] then None
                else Some (c # sg @ takeWhile is_digit r', dropWhile is_digit r'))
          else Some ([], s))"

definition scan_number :: "string \<Rightarrow> (string \<times> string) option" where
  "scan_number s =
     (let (sg, s1) = (case s of [] \<Rightarrow> ([], s) | c # r \<Rightarrow> if c = CHR ''-'' then ([c], r) else ([], s))
      in case s1 of
           [] \<Rightarrow> None
         | c # r \<Rightarrow>
             if \<not> is_digit c then None
             else
               (let (ip, s2) = (if c = CHR ''0'' then ([c], r)
                                else (takeWhile is_digit s1, dropWhile is_digit s1))
                in case scan_frac s2 of
                     None \<Rightarrow> None
                   | Some (fp, s3) \<Rightarrow>
                       (case scan_exp s3 of
                          None \<Rightarrow> None
                        | Some (ep, s4) \<Rightarrow> Some (sg @ ip @ fp @ ep, s4))))"

text \<open>
  The recursive descent over values, elements of an array (after the bracket) and
  members of an object (after the brace). The first argument bounds the number of nested
  calls; \<open>JSON_parse\<close> starts it above the length of the text, which no text exhausts.
  A repeated key keeps its first place and takes the last value. Members keep the order
  of the text; the platform puts keys that are array indices first, which no property
  read depends on.
\<close>

fun parse_value :: "nat \<Rightarrow> string \<Rightarrow> (jsval \<times> string) option"
  and parse_elements :: "nat \<Rightarrow> string \<Rightarrow> (jsval list \<times> string) option"
  and parse_members :: "nat \<Rightarrow> (string \<times> jsval) list \<Rightarrow> string \<Rightarrow> ((string \<times> jsval) list \<times> string) option"
where
  "parse_value 0 s = None"
| "parse_value (Suc n) s =
     (case s of
        [] \<Rightarrow> None
      | c # cs \<Rightarrow>
          if c = CHR ''{'' then
            (case skip_ws cs of
               [] \<Rightarrow> None
             | d # ds \<Rightarrow>
                 if d = CHR ''}'' then Some (JObj [], ds)
                 else (case parse_members n [] (d # ds) of
                         None \<Rightarrow> None
                       | Some (kvs, r) \<Rightarrow> Some (JObj kvs, r)))
          else if c = CHR ''['' then
            (case skip_ws cs of
               [] \<Rightarrow> None
             | d # ds \<Rightarrow>
                 if d = CHR '']'' then Some (JArr [], ds)
                 else (case parse_elements n (d # ds) of
                         None \<Rightarrow> None
                       | Some (vs, r) \<Rightarrow> Some (JArr vs, r)))
          else if c = CHR 0x22 then
            (case parse_chars cs of None \<Rightarrow> None | Some (t, r) \<Rightarrow> Some (JStr t, r))
          else if prefix ''true'' s then Some (JBool True, drop 4 s)
          else if prefix ''false'' s then Some (JBool False, drop 5 s)
          else if prefix ''null'' s then Some (JNull, drop 4 s)
          else (case scan_number s of None \<Rightarrow> None | Some (l, r) \<Rightarrow> Some (JNum l, r)))"
| "parse_elements 0 s = None"
| "parse_elements (Suc n) s =
     (case parse_value n s of
        None \<Rightarrow> None
      | Some (v, r) \<Rightarrow>
          (case skip_ws r of
             [] \<Rightarrow> None
           | c # cs \<Rightarrow>
               if c = CHR '','' then
                 (case parse_elements n (skip_ws cs) of
                    None \<Rightarrow> None
                  | Some (vs, r') \<Rightarrow> Some (v # vs, r'))
               else if c = CHR '']'' then Some ([v], cs)
               else None))"
| "parse_members 0 acc s = None"
| "parse_members (Suc n) acc s =
     (case s of
        [] \<Rightarrow> None
      | c # cs \<Rightarrow>
          if c \<noteq> CHR 0x22 then None
          else
            (case parse_chars cs of
               None \<Rightarrow> None
             | Some (k, r) \<Rightarrow>
                 (case skip_ws r of
                    [] \<Rightarrow> None
                  | d # ds \<Rightarrow>
                      if d \<noteq> CHR '':'' then None
                      else
                        (case parse_value n (skip_ws ds) of
                           None \<Rightarrow> None
                         | Some (v, r') \<Rightarrow>
                             (case skip_ws r' of
                                [] \<Rightarrow> None
                              | e # es \<Rightarrow>
                                  if e = CHR '','' then parse_members n (obj_set acc k v) (skip_ws es)
                                  else if e = CHR ''}'' then Some (obj_set acc k v, es)
                                  else None)))))"

definition JSON_parse :: "string \<Rightarrow> error + jsval" where
  "JSON_parse s =
     (case parse_value (Suc (length s)) (skip_ws s) of
        None \<Rightarrow> Inl SyntaxError
      | Some (v, r) \<Rightarrow> if skip_ws r = [] then Inr v else Inl SyntaxError)"

section \<open>The request pipeline\<close>

subsection \<open>Number.parseInt with radix 10\<close>

text \<open>
  The white space \<open>parseInt\<close> strips from the start of its input (WhiteSpace and
  LineTerminator), each character as its UTF-8 bytes.
\<close>

definition js_whitespace :: "string list" where
  "js_whitespace =
     [[CHR 0x09], [CHR 0x0A], [CHR 0x0B], [CHR 0x0C], [CHR 0x0D], [CHR 0x20],
      [CHR 0xC2, CHR 0xA0], [CHR 0xE1, CHR 0x9A, CHR 0x80],
      [CHR 0xE2, CHR 0x80, CHR 0x80], [CHR 0xE2, CHR 0x80, CHR 0x81], [CHR 0xE2, CHR 0x80, CHR 0x82],
      [CHR 0xE2, CHR 0x80, CHR 0x83], [CHR 0xE2, CHR 0x80, CHR 0x84], [CHR 0xE2, CHR 0x80, CHR 0x85],
      [CHR 0xE2, CHR 0x80, CHR 0x86], [CHR 0xE2, CHR 0x80, CHR 0x87], [CHR 0xE2, CHR 0x80, CHR 0x88],
      [CHR 0xE2, CHR 0x80, CHR 0x89], [CHR 0xE2, CHR 0x80, CHR 0x8A], [CHR 0xE2, CHR 0x80, CHR 0xA8],
      [CHR 0xE2, CHR 0x80, CHR 0xA9], [CHR 0xE2, CHR 0x80, CHR 0xAF], [CHR 0xE2, CHR 0x81, CHR 0x9F],
      [CHR 0xE3, CHR 0x80, CHR 0x80], [CHR 0xEF, CHR 0xBB, CHR 0xBF]]"

definition ws_len :: "string \<Rightarrow> nat" where
  "ws_len s = (case filter (\<lambda>w. prefix w s) js_whitespace of [] \<Rightarrow> 0 | w # ws \<Rightarrow> length w)"

fun trim_start :: "string \<Rightarrow> string" where
  "trim_start [] = []"
| "trim_start (c # cs) = (case ws_len (c # cs) of 0 \<Rightarrow> c # cs | Suc n \<Rightarrow> trim_start (drop n cs))"

text \<open>
  \<open>Number.parseInt(s, 10)\<close>: leading white space and one sign are skipped, then the
  longest run of decimal digits is read; with no digit there the result is \<open>NaN\<close>.
  The integer read is kept exact; the platform rounds it to a double, which differs
  from the 53rd power of 2 on.
\<close>

definition parseInt :: "string \<Rightarrow> jsnumber" where
  "parseInt s =
     (let t = trim_start s;
          (neg, u) = (case t of [] \<Rightarrow> (False, t)
                      | c # r \<Rightarrow> if c = CHR ''-'' then (True, r)
                                else if c = CHR ''+'' then (False, r) else (False, t));
          ds = takeWhile is_digit u
      in if ds = [] then NaN
         else Num (if neg then - int (digits_val ds) else int (digits_val ds)))"

subsection \<open>Credentials, requests and responses\<close>

record TenantCredentials =
  accessToken :: "string option"
  baseUrl :: "string option"

record GoogleDriveClientImpl =
  credentials :: TenantCredentials
  this_baseUrl :: string
  this_uploadUrl :: string

definition API_BASE_URL :: string where
  "API_BASE_URL = ''https://www.googleapis.com/drive/v3''"

definition UPLOAD_BASE_URL :: string where
  "UPLOAD_BASE_URL = ''https://www.googleapis.com/upload/drive/v3''"

definition DEFAULT_FILE_FIELDS :: string where
  "DEFAULT_FILE_FIELDS = ''id,name,mimeType,description,starred,trashed,parents,size,createdTime,modifiedTime,webViewLink,webContentLink,iconLink,thumbnailLink,shared,ownedByMe,owners,capabilities''"

text \<open>The constructor: the base URL may be overridden, the upload URL is fixed.\<close>

definition createGoogleDriveClient :: "TenantCredentials \<Rightarrow> GoogleDriveClientImpl" where
  "createGoogleDriveClient c =
     \<lparr>credentials = c, this_baseUrl = str_or (baseUrl c) API_BASE_URL, this_uploadUrl = UPLOAD_BASE_URL\<rparr>"

text \<open>The \<open>options\<close> argument of \<open>request\<close>; each member may be absent.\<close>

record RequestInit =
  req_method :: "string option"
  req_headers :: "(string \<times> string) list option"
  req_body :: "string option"

definition no_options :: RequestInit where
  "no_options = \<lparr>req_method = None, req_headers = None, req_body = None\<rparr>"

text \<open>One call of \<open>fetch\<close>: the URL and the init object it is given.\<close>

record fetch_call =
  url :: string
  call_method :: "string option"
  call_headers :: "(string \<times> string) list"
  call_body :: "string option"

record Response =
  status :: nat
  response_headers :: "(string \<times> string) list"
  response_text :: string

text \<open>
  The remote service: given the calls made so far and the present call, \<open>fetch\<close> either
  rejects or resolves to a response. An operation takes the list of the calls made so
  far and returns its outcome with the list extended by the calls it made.
\<close>

type_synonym network = "fetch_call list \<Rightarrow> fetch_call \<Rightarrow> error + Response"

type_synonym promise = "fetch_call list \<Rightarrow> (error + jsval) \<times> fetch_call list"

text \<open>
  \<open>headers.get(name)\<close>: names compare without case; several values are joined. The
  values of \<open>response_headers\<close> are the values as the platform holds them, that is
  without leading and trailing white space.
\<close>

definition headers_get :: "(string \<times> string) list \<Rightarrow> string \<Rightarrow> string option" where
  "headers_get hs name =
     (case filter (\<lambda>(k, v). map ascii_lower k = map ascii_lower name) hs of
        [] \<Rightarrow> None
      | kvs \<Rightarrow> Some (join '', '' (map snd kvs)))"

definition response_ok :: "Response \<Rightarrow> bool" where
  "response_ok r = (200 \<le> status r \<and> status r \<le> 299)"

definition getAuthHeaders :: "GoogleDriveClientImpl \<Rightarrow> error + (string \<times> string) list" where
  "getAuthHeaders this =
     (if \<not> str_truthy (accessToken (credentials this)) then
        Inl (AuthenticationError ''No credentials provided. Include X-Google-Access-Token header.'')
      else
        Inr [(''Authorization'', ''Bearer '' @ str_or (accessToken (credentials this)) []),
             (''Content-Type'', ''application/json'')])"

text \<open>The URL and init object \<open>request\<close> hands to \<open>fetch\<close>, given the auth headers.\<close>

definition fetch_args ::
  "GoogleDriveClientImpl \<Rightarrow> (string \<times> string) list \<Rightarrow> string \<Rightarrow> RequestInit \<Rightarrow> bool \<Rightarrow> fetch_call" where
  "fetch_args this auth endpoint options useUploadUrl =
     \<lparr>url = (if useUploadUrl then this_uploadUrl this else this_baseUrl this) @ endpoint,
      call_method = req_method options,
      call_headers = spread auth (case req_headers options of None \<Rightarrow> [] | Some hs \<Rightarrow> hs),
      call_body = req_body options\<rparr>"

text \<open>
  The part of \<open>request\<close> after \<open>fetch\<close> has resolved: the status is interpreted, first
  match first, and a successful response is shaped by its status and content type.
\<close>

definition interpret_response :: "string \<Rightarrow> Response \<Rightarrow> error + jsval" where
  "interpret_response endpoint response =
     (if status response = 429 then
        (let retryAfter = headers_get (response_headers response) ''Retry-After''
         in Inl (RateLimitError ''Rate limit exceeded''
                   (if str_truthy retryAfter then parseInt (str_or retryAfter []) else Num 60)))
      else if status response = 401 then
        Inl (AuthenticationError ''Authentication failed. Check your OAuth access token.'')
      else if status response = 403 then
        (let errorBody = response_text response;
             message = JStr ''Access denied'';
             message =
               (case JSON_parse errorBody of
                  Inl e \<Rightarrow> message
                | Inr errorJson \<Rightarrow>
                    (case get_prop errorJson ''error'' of
                       Inl e \<Rightarrow> message
                     | Inr err \<Rightarrow> js_or (opt_prop err ''message'') message))
         in Inl (ForbiddenError message))
      else if status response = 404 then Inl (NotFoundError ''Resource'' endpoint)
      else if \<not> response_ok response then
        (let errorBody = response_text response;
             message = JStr (''API error: '' @ dec (status response));
             message =
               (case JSON_parse errorBody of
                  Inl e \<Rightarrow> message
                | Inr errorJson \<Rightarrow>
                    (case get_prop errorJson ''error'' of
                       Inl e \<Rightarrow> message
                     | Inr err \<Rightarrow>
                         (case get_prop errorJson ''message'' of
                            Inl e \<Rightarrow> message
                          | Inr msg \<Rightarrow> js_or (opt_prop err ''message'') (js_or msg message))))
         in Inl (GoogleDriveApiError message (status response)))
      else if status response = 204 then Inr Undefined
      else
        (let contentType = headers_get (response_headers response) ''content-type''
         in if (case contentType of None \<Rightarrow> False | Some ct \<Rightarrow> str_includes ct ''application/json'')
            then JSON_parse (response_text response)
            else Inr (JStr (response_text response))))"

text \<open>
  \<open>request\<close>: the headers are built first, and building them throws when the token is
  missing, before \<open>fetch\<close> is called.
\<close>

definition request ::
  "GoogleDriveClientImpl \<Rightarrow> network \<Rightarrow> string \<Rightarrow> RequestInit \<Rightarrow> bool \<Rightarrow> promise" where
  "request this net endpoint options useUploadUrl calls =
     (case getAuthHeaders this of
        Inl e \<Rightarrow> (Inl e, calls)
      | Inr auth \<Rightarrow>
          (let call = fetch_args this auth endpoint options useUploadUrl
           in case net calls call of
                Inl e \<Rightarrow> (Inl e, calls @ [call])
              | Inr response \<Rightarrow> (interpret_response endpoint response, calls @ [call])))"

text \<open>The call \<open>request\<close> makes when the token is present.\<close>

definition the_call :: "GoogleDriveClientImpl \<Rightarrow> string \<Rightarrow> RequestInit \<Rightarrow> bool \<Rightarrow> fetch_call" where
  "the_call this endpoint options useUploadUrl =
     fetch_args this
       [(''Authorization'', ''Bearer '' @ str_or (accessToken (credentials this)) []),
        (''Content-Type'', ''application/json'')]
       endpoint options useUploadUrl"

section \<open>The client operations\<close>

subsection \<open>Query strings\<close>

definition HEX_digit :: "nat \<Rightarrow> char" where
  "HEX_digit n = ''0123456789ABCDEF'' ! (n mod 16)"

definition percent_encode :: "char \<Rightarrow> string" where
  "percent_encode c = [CHR ''%'', HEX_digit (of_char c div 16), HEX_digit (of_char c)]"

definition alphanumeric :: string where
  "alphanumeric = ''ABCDEFGHIJKLMNOPQRSTUVWXYZabcdefghijklmnopqrstuvwxyz0123456789''"

text \<open>\<open>encodeURIComponent\<close>: every byte but the unreserved characters is percent-encoded.\<close>

definition encodeURIComponent :: "string \<Rightarrow> string" where
  "encodeURIComponent s =
     concat (map (\<lambda>c. if c \<in> set (alphanumeric @ ''-_.!~*()'' @ [CHR 0x27]) then [c]
                        else percent_encode c) s)"

text \<open>
  \<open>URLSearchParams\<close>: a list of name-value pairs. \<open>set\<close> replaces the first pair of the
  name and removes the others, or appends; \<open>toString\<close> is the
  application/x-www-form-urlencoded serialisation.
\<close>

fun qp_set :: "(string \<times> string) list \<Rightarrow> string \<Rightarrow> string \<Rightarrow> (string \<times> string) list" where
  "qp_set [] k v = [(k, v)]"
| "qp_set ((k', v') # ps) k v =
     (if k' = k then (k, v) # filter (\<lambda>(a, b). a \<noteq> k) ps else (k', v') # qp_set ps k v)"

definition form_encode :: "string \<Rightarrow> string" where
  "form_encode s =
     concat (map (\<lambda>c. if c = CHR '' '' then ''+''
                        else if c \<in> set (alphanumeric @ ''*-._'') then [c]
                        else percent_encode c) s)"

definition qp_toString :: "(string \<times> string) list \<Rightarrow> string" where
  "qp_toString ps = join ''&'' (map (\<lambda>(k, v). form_encode k @ ''='' @ form_encode v) ps)"

text \<open>\<open>if (v) queryParams.set(k, v)\<close> for an optional string.\<close>

definition set_if_str :: "(string \<times> string) list \<Rightarrow> string \<Rightarrow> string option \<Rightarrow> (string \<times> string) list" where
  "set_if_str ps k v = (if str_truthy v then qp_set ps k (str_or v []) else ps)"

text \<open>\<open>if (n) queryParams.set(k, String(n))\<close> for an optional integer: zero is falsy.\<close>

definition set_if_num :: "(string \<times> string) list \<Rightarrow> string \<Rightarrow> int option \<Rightarrow> (string \<times> string) list" where
  "set_if_num ps k n =
     (case n of None \<Rightarrow> ps | Some i \<Rightarrow> if i \<noteq> 0 then qp_set ps k (String_of_int i) else ps)"

text \<open>\<open>if (b) queryParams.set(k, String(b))\<close> for an optional boolean.\<close>

definition set_if_true :: "(string \<times> string) list \<Rightarrow> string \<Rightarrow> bool option \<Rightarrow> (string \<times> string) list" where
  "set_if_true ps k b = (if b = Some True then qp_set ps k ''true'' else ps)"

text \<open>\<open>if (b !== undefined) queryParams.set(k, String(b))\<close>.\<close>

definition set_if_defined :: "(string \<times> string) list \<Rightarrow> string \<Rightarrow> bool option \<Rightarrow> (string \<times> string) list" where
  "set_if_defined ps k b = (case b of None \<Rightarrow> ps | Some x \<Rightarrow> qp_set ps k (String_of_bool x))"

subsection \<open>Objects built for request bodies\<close>

definition opt_str :: "string option \<Rightarrow> jsval" where
  "opt_str s = (case s of None \<Rightarrow> Undefined | Some t \<Rightarrow> JStr t)"

definition opt_bool :: "bool option \<Rightarrow> jsval" where
  "opt_bool b = (case b of None \<Rightarrow> Undefined | Some x \<Rightarrow> JBool x)"

definition opt_strs :: "string list option \<Rightarrow> jsval" where
  "opt_strs ss = (case ss of None \<Rightarrow> Undefined | Some l \<Rightarrow> JArr (map JStr l))"

text \<open>\<open>if (v) obj.k = v\<close> and \<open>if (v !== undefined) obj.k = v\<close>.\<close>

definition put_if_truthy :: "(string \<times> jsval) list \<Rightarrow> string \<Rightarrow> jsval \<Rightarrow> (string \<times> jsval) list" where
  "put_if_truthy obj k v = (if truthy v then obj_set obj k v else obj)"

definition put_if_defined :: "(string \<times> jsval) list \<Rightarrow> string \<Rightarrow> jsval \<Rightarrow> (string \<times> jsval) list" where
  "put_if_defined obj k v = (if v \<noteq> Undefined then obj_set obj k v else obj)"

text \<open>A string built with \<open>+\<close> from the result of \<open>JSON.stringify\<close>.\<close>

definition stringified :: "jsval \<Rightarrow> string" where
  "stringified v = (case JSON_stringify v of None \<Rightarrow> ''undefined'' | Some t \<Rightarrow> t)"

subsection \<open>Awaiting the pipeline\<close>

definition await :: "promise \<Rightarrow> (jsval \<Rightarrow> error + jsval) \<Rightarrow> promise" where
  "await p f calls =
     (case p calls of
        (Inl e, calls') \<Rightarrow> (Inl e, calls')
      | (Inr v, calls') \<Rightarrow> (f v, calls'))"

text \<open>
  The object every listing returns, from the payload \<open>response\<close> and the name of its
  resource array:
  \<open>{ items: response.key || [], hasMore: !!response.nextPageToken,
      nextPageToken: response.nextPageToken }\<close>.
\<close>

definition paginated :: "string \<Rightarrow> jsval \<Rightarrow> error + jsval" where
  "paginated key response =
     (case get_prop response key of
        Inl e \<Rightarrow> Inl e
      | Inr arr \<Rightarrow>
          (case get_prop response ''nextPageToken'' of
             Inl e \<Rightarrow> Inl e
           | Inr tok \<Rightarrow>
               Inr (JObj [(''items'', js_or arr (JArr [])),
                          (''hasMore'', JBool (truthy tok)),
                          (''nextPageToken'', tok)])))"

text \<open>An operation declared \<open>Promise<void>\<close> awaits the pipeline and returns nothing.\<close>

definition returns_void :: "jsval \<Rightarrow> error + jsval" where
  "returns_void v = Inr Undefined"

definition with_method :: "string \<Rightarrow> RequestInit" where
  "with_method m = \<lparr>req_method = Some m, req_headers = None, req_body = None\<rparr>"

definition with_body :: "string \<Rightarrow> string option \<Rightarrow> RequestInit" where
  "with_body m b = \<lparr>req_method = Some m, req_headers = None, req_body = b\<rparr>"

subsection \<open>About\<close>

definition getAbout :: "GoogleDriveClientImpl \<Rightarrow> network \<Rightarrow> string option \<Rightarrow> promise" where
  "getAbout this net fields' =
     request this net
       (''/about?fields='' @ encodeURIComponent (case fields' of None \<Rightarrow> ''*'' | Some f \<Rightarrow> f))
       no_options False"

text \<open>
  \<open>String(v)\<close> inside a template literal or \<open>join\<close>. A number is rendered by its
  literal, which is what the platform prints when the literal is in shortest form (it
  prints \<open>1.50\<close> as \<open>1.5\<close>).
\<close>

fun js_toString :: "jsval \<Rightarrow> string" where
  "js_toString Undefined = ''undefined''"
| "js_toString JNull = ''null''"
| "js_toString (JBool b) = String_of_bool b"
| "js_toString (JNum l) = l"
| "js_toString (JStr s) = s"
| "js_toString (JArr vs) =
     join '','' (map (\<lambda>v. if v = Undefined \<or> v = JNull then [] else js_toString v) vs)"
| "js_toString (JObj kvs) = ''[object Object]''"

text \<open>
  \<open>testConnection\<close> catches every error and reports it. The text of an error (its
  \<open>message\<close>) is set by the error classes and by the platform and is a parameter here.
\<close>

definition testConnection :: "GoogleDriveClientImpl \<Rightarrow> network \<Rightarrow> (error \<Rightarrow> jsval) \<Rightarrow> promise" where
  "testConnection this net message_of calls =
     (case getAbout this net (Some ''user'') calls of
        (Inl e, calls') \<Rightarrow>
          (Inr (JObj [(''connected'', JBool False), (''message'', message_of e)]), calls')
      | (Inr about, calls') \<Rightarrow>
          (case get_prop about ''user'' of
             Inl e \<Rightarrow> (Inr (JObj [(''connected'', JBool False), (''message'', message_of e)]), calls')
           | Inr user \<Rightarrow>
               (Inr (JObj [(''connected'', JBool True),
                           (''message'', JStr (''Connected to Google Drive as '' @
                              js_toString (js_or (opt_prop user ''displayName'')
                                (js_or (opt_prop user ''emailAddress'') (JStr ''unknown user'')))))]),
                calls')))"

subsection \<open>Files\<close>

record listFiles_params =
  lf_q :: "string option"
  lf_pageSize :: "int option"
  lf_pageToken :: "string option"
  lf_fields :: "string option"
  lf_orderBy :: "string option"
  lf_spaces :: "string option"
  lf_corpora :: "string option"
  lf_driveId :: "string option"
  lf_includeItemsFromAllDrives :: "bool option"
  lf_supportsAllDrives :: "bool option"

definition listFiles_query :: "listFiles_params \<Rightarrow> (string \<times> string) list" where
  "listFiles_query params =
     (let queryParams = [];
          queryParams = set_if_str queryParams ''q'' (lf_q params);
          queryParams = set_if_num queryParams ''pageSize'' (lf_pageSize params);
          queryParams = set_if_str queryParams ''pageToken'' (lf_pageToken params);
          queryParams = qp_set queryParams ''fields''
            (''nextPageToken,files('' @ str_or (lf_fields params) DEFAULT_FILE_FIELDS @ '')'');
          queryParams = set_if_str queryParams ''orderBy'' (lf_orderBy params);
          queryParams = set_if_str queryParams ''spaces'' (lf_spaces params);
          queryParams = set_if_str queryParams ''corpora'' (lf_corpora params);
          queryParams = set_if_str queryParams ''driveId'' (lf_driveId params);
          queryParams = set_if_true queryParams ''includeItemsFromAllDrives''
            (lf_includeItemsFromAllDrives params);
          queryParams = set_if_true queryParams ''supportsAllDrives'' (lf_supportsAllDrives params)
      in queryParams)"

definition listFiles :: "GoogleDriveClientImpl \<Rightarrow> network \<Rightarrow> listFiles_params \<Rightarrow> promise" where
  "listFiles this net params =
     await (request this net (''/files?'' @ qp_toString (listFiles_query params)) no_options False)
       (paginated ''files'')"

definition getFile :: "GoogleDriveClientImpl \<Rightarrow> network \<Rightarrow> string \<Rightarrow> string option \<Rightarrow> promise" where
  "getFile this net fileId fields' =
     (let queryParams = qp_set [] ''fields'' (str_or fields' DEFAULT_FILE_FIELDS);
          queryParams = qp_set queryParams ''supportsAllDrives'' ''true''
      in request this net (''/files/'' @ fileId @ ''?'' @ qp_toString queryParams) no_options False)"

definition boundary :: string where
  "boundary = ''-------314159265358979323846''"

definition delimiter :: string where
  "delimiter = [CHR 0x0D, CHR 0x0A] @ ''--'' @ boundary @ [CHR 0x0D, CHR 0x0A]"

definition closeDelim :: string where
  "closeDelim = [CHR 0x0D, CHR 0x0A] @ ''--'' @ boundary @ ''--''"

text \<open>
  The multipart body \<open>createFile\<close> and \<open>updateFile\<close> build from the metadata object, the
  optional MIME type and the content.
\<close>

definition multipartBody :: "jsval \<Rightarrow> string option \<Rightarrow> string \<Rightarrow> string" where
  "multipartBody metadata mimeType content =
     delimiter @
     ''Content-Type: application/json; charset=UTF-8'' @ [CHR 0x0D, CHR 0x0A, CHR 0x0D, CHR 0x0A] @
     stringified metadata @
     delimiter @
     ''Content-Type: '' @ str_or mimeType ''text/plain'' @ [CHR 0x0D, CHR 0x0A, CHR 0x0D, CHR 0x0A] @
     content @
     closeDelim"

definition multipart_options :: "string \<Rightarrow> string \<Rightarrow> RequestInit" where
  "multipart_options m multipart =
     \<lparr>req_method = Some m,
      req_headers = Some [(''Content-Type'', ''multipart/related; boundary=\"'' @ boundary @ ''\"'')],
      req_body = Some multipart\<rparr>"

record createFile_params =
  cf_name :: string
  cf_mimeType :: "string option"
  cf_parents :: "string list option"
  cf_description :: "string option"
  cf_content :: "string option"

definition createFile_metadata :: "createFile_params \<Rightarrow> jsval" where
  "createFile_metadata params =
     (let metadata = [(''name'', JStr (cf_name params))];
          metadata = put_if_truthy metadata ''mimeType'' (opt_str (cf_mimeType params));
          metadata = put_if_truthy metadata ''parents'' (opt_strs (cf_parents params));
          metadata = put_if_truthy metadata ''description'' (opt_str (cf_description params))
      in JObj metadata)"

definition createFile :: "GoogleDriveClientImpl \<Rightarrow> network \<Rightarrow> createFile_params \<Rightarrow> promise" where
  "createFile this net params =
     (let metadata = createFile_metadata params
      in if str_truthy (cf_content params) then
           request this net (''/files?uploadType=multipart&fields='' @ DEFAULT_FILE_FIELDS)
             (multipart_options ''POST''
                (multipartBody metadata (cf_mimeType params) (str_or (cf_content params) [])))
             True
         else
           request this net (''/files?fields='' @ DEFAULT_FILE_FIELDS)
             (with_body ''POST'' (JSON_stringify metadata)) False)"

record updateFile_params =
  uf_name :: "string option"
  uf_description :: "string option"
  uf_mimeType :: "string option"
  uf_content :: "string option"
  uf_addParents :: "string option"
  uf_removeParents :: "string option"
  uf_starred :: "bool option"
  uf_trashed :: "bool option"

definition updateFile_metadata :: "updateFile_params \<Rightarrow> jsval" where
  "updateFile_metadata params =
     (let metadata = [];
          metadata = put_if_defined metadata ''name'' (opt_str (uf_name params));
          metadata = put_if_defined metadata ''description'' (opt_str (uf_description params));
          metadata = put_if_defined metadata ''mimeType'' (opt_str (uf_mimeType params));
          metadata = put_if_defined metadata ''starred'' (opt_bool (uf_starred params));
          metadata = put_if_defined metadata ''trashed'' (opt_bool (uf_trashed params))
      in JObj metadata)"

definition updateFile ::
  "GoogleDriveClientImpl \<Rightarrow> network \<Rightarrow> string \<Rightarrow> updateFile_params \<Rightarrow> promise" where
  "updateFile this net fileId params =
     (let queryParams = qp_set [] ''fields'' DEFAULT_FILE_FIELDS;
          queryParams = qp_set queryParams ''supportsAllDrives'' ''true'';
          queryParams = set_if_str queryParams ''addParents'' (uf_addParents params);
          queryParams = set_if_str queryParams ''removeParents'' (uf_removeParents params);
          metadata = updateFile_metadata params
      in if str_truthy (uf_content params) then
           request this net
             (''/files/'' @ fileId @ ''?uploadType=multipart&'' @ qp_toString queryParams)
             (multipart_options ''PATCH''
                (multipartBody metadata (uf_mimeType params) (str_or (uf_content params) [])))
             True
         else
           request this net (''/files/'' @ fileId @ ''?'' @ qp_toString queryParams)
             (with_body ''PATCH'' (JSON_stringify metadata)) False)"

text \<open>
  Where an operation sends \<open>JSON.stringify(params)\<close>, its \<open>params\<close> argument is the
  object as the caller built it.
\<close>

definition copyFile :: "GoogleDriveClientImpl \<Rightarrow> network \<Rightarrow> string \<Rightarrow> jsval \<Rightarrow> promise" where
  "copyFile this net fileId params =
     (let queryParams = qp_set [] ''fields'' DEFAULT_FILE_FIELDS;
          queryParams = qp_set queryParams ''supportsAllDrives'' ''true''
      in request this net (''/files/'' @ fileId @ ''/copy?'' @ qp_toString queryParams)
           (with_body ''POST'' (JSON_stringify params)) False)"

definition deleteFile :: "GoogleDriveClientImpl \<Rightarrow> network \<Rightarrow> string \<Rightarrow> promise" where
  "deleteFile this net fileId =
     await (request this net (''/files/'' @ fileId @ ''?supportsAllDrives=true'')
              (with_method ''DELETE'') False)
       returns_void"

definition emptyTrash :: "GoogleDriveClientImpl \<Rightarrow> network \<Rightarrow> promise" where
  "emptyTrash this net =
     await (request this net ''/files/trash'' (with_method ''DELETE'') False) returns_void"

definition exportFile :: "GoogleDriveClientImpl \<Rightarrow> network \<Rightarrow> string \<Rightarrow> string \<Rightarrow> promise" where
  "exportFile this net fileId mimeType =
     request this net (''/files/'' @ fileId @ ''/export?mimeType='' @ encodeURIComponent mimeType)
       no_options False"

definition downloadFile :: "GoogleDriveClientImpl \<Rightarrow> network \<Rightarrow> string \<Rightarrow> promise" where
  "downloadFile this net fileId =
     request this net (''/files/'' @ fileId @ ''?alt=media&supportsAllDrives=true'') no_options False"

definition generateIds ::
  "GoogleDriveClientImpl \<Rightarrow> network \<Rightarrow> int option \<Rightarrow> string option \<Rightarrow> promise" where
  "generateIds this net count space =
     await (request this net
              (''/files/generateIds?count='' @ String_of_int (case count of None \<Rightarrow> 10 | Some n \<Rightarrow> n) @
               ''&space='' @ (case space of None \<Rightarrow> ''drive'' | Some s \<Rightarrow> s))
              no_options False)
       (\<lambda>response. get_prop response ''ids'')"

definition listLabels :: "GoogleDriveClientImpl \<Rightarrow> network \<Rightarrow> string \<Rightarrow> promise" where
  "listLabels this net fileId =
     request this net (''/files/'' @ fileId @ ''/listLabels'') no_options False"

definition modifyLabels :: "GoogleDriveClientImpl \<Rightarrow> network \<Rightarrow> string \<Rightarrow> jsval \<Rightarrow> promise" where
  "modifyLabels this net fileId labelModifications =
     request this net (''/files/'' @ fileId @ ''/modifyLabels'')
       (with_body ''POST'' (JSON_stringify (JObj [(''labelModifications'', labelModifications)]))) False"

definition watchFile :: "GoogleDriveClientImpl \<Rightarrow> network \<Rightarrow> string \<Rightarrow> jsval \<Rightarrow> promise" where
  "watchFile this net fileId channel =
     request this net (''/files/'' @ fileId @ ''/watch?supportsAllDrives=true'')
       (with_body ''POST'' (JSON_stringify channel)) False"

subsection \<open>Folders\<close>

definition createFolder ::
  "GoogleDriveClientImpl \<Rightarrow> network \<Rightarrow> string \<Rightarrow> string list option \<Rightarrow> promise" where
  "createFolder this net name parents =
     createFile this net
       \<lparr>cf_name = name, cf_mimeType = Some ''application/vnd.google-apps.folder'',
        cf_parents = parents, cf_description = None, cf_content = None\<rparr>"

text \<open>The search query of a folder listing: \<open>'<folderId>' in parents and trashed = false\<close>.\<close>

definition folder_query :: "string \<Rightarrow> string" where
  "folder_query folderId = [CHR 0x27] @ folderId @ [CHR 0x27] @ '' in parents and trashed = false''"

definition listFolderContents ::
  "GoogleDriveClientImpl \<Rightarrow> network \<Rightarrow> string \<Rightarrow> int option \<Rightarrow> string option \<Rightarrow> string option \<Rightarrow> promise" where
  "listFolderContents this net folderId pageSize pageToken orderBy =
     listFiles this net
       \<lparr>lf_q = Some (folder_query folderId),
        lf_pageSize = pageSize, lf_pageToken = pageToken, lf_fields = None, lf_orderBy = orderBy,
        lf_spaces = None, lf_corpora = None, lf_driveId = None,
        lf_includeItemsFromAllDrives = None, lf_supportsAllDrives = None\<rparr>"

subsection \<open>Permissions\<close>

definition listPermissions ::
  "GoogleDriveClientImpl \<Rightarrow> network \<Rightarrow> string \<Rightarrow> int option \<Rightarrow> string option \<Rightarrow> bool option \<Rightarrow> promise" where
  "listPermissions this net fileId pageSize pageToken supportsAllDrives =
     (let queryParams = set_if_num [] ''pageSize'' pageSize;
          queryParams = set_if_str queryParams ''pageToken'' pageToken;
          queryParams = qp_set queryParams ''supportsAllDrives''
            (String_of_bool (case supportsAllDrives of None \<Rightarrow> True | Some b \<Rightarrow> b));
          queryParams = qp_set queryParams ''fields'' ''nextPageToken,permissions(*)''
      in await (request this net (''/files/'' @ fileId @ ''/permissions?'' @ qp_toString queryParams)
                  no_options False)
           (paginated ''permissions''))"

definition getPermission :: "GoogleDriveClientImpl \<Rightarrow> network \<Rightarrow> string \<Rightarrow> string \<Rightarrow> promise" where
  "getPermission this net fileId permissionId =
     request this net
       (''/files/'' @ fileId @ ''/permissions/'' @ permissionId @ ''?supportsAllDrives=true&fields=*'')
       no_options False"

record createPermission_params =
  cp_role :: string
  cp_type :: string
  cp_emailAddress :: "string option"
  cp_domain :: "string option"
  cp_allowFileDiscovery :: "bool option"
  cp_sendNotificationEmail :: "bool option"
  cp_emailMessage :: "string option"
  cp_transferOwnership :: "bool option"
  cp_moveToNewOwnersRoot :: "bool option"

definition createPermission ::
  "GoogleDriveClientImpl \<Rightarrow> network \<Rightarrow> string \<Rightarrow> createPermission_params \<Rightarrow> promise" where
  "createPermission this net fileId params =
     (let queryParams = qp_set [] ''supportsAllDrives'' ''true'';
          queryParams = qp_set queryParams ''fields'' ''*'';
          queryParams = set_if_defined queryParams ''sendNotificationEmail''
            (cp_sendNotificationEmail params);
          queryParams = set_if_str queryParams ''emailMessage'' (cp_emailMessage params);
          queryParams = set_if_true queryParams ''transferOwnership'' (cp_transferOwnership params);
          queryParams = set_if_true queryParams ''moveToNewOwnersRoot'' (cp_moveToNewOwnersRoot params);
          body = [(''role'', JStr (cp_role params)), (''type'', JStr (cp_type params))];
          body = put_if_truthy body ''emailAddress'' (opt_str (cp_emailAddress params));
          body = put_if_truthy body ''domain'' (opt_str (cp_domain params));
          body = put_if_defined body ''allowFileDiscovery'' (opt_bool (cp_allowFileDiscovery params))
      in request this net (''/files/'' @ fileId @ ''/permissions?'' @ qp_toString queryParams)
           (with_body ''POST'' (JSON_stringify (JObj body))) False)"

definition updatePermission ::
  "GoogleDriveClientImpl \<Rightarrow> network \<Rightarrow> string \<Rightarrow> string \<Rightarrow> jsval \<Rightarrow> promise" where
  "updatePermission this net fileId permissionId params =
     request this net
       (''/files/'' @ fileId @ ''/permissions/'' @ permissionId @ ''?supportsAllDrives=true&fields=*'')
       (with_body ''PATCH'' (JSON_stringify params)) False"

definition deletePermission :: "GoogleDriveClientImpl \<Rightarrow> network \<Rightarrow> string \<Rightarrow> string \<Rightarrow> promise" where
  "deletePermission this net fileId permissionId =
     await (request this net
              (''/files/'' @ fileId @ ''/permissions/'' @ permissionId @ ''?supportsAllDrives=true'')
              (with_method ''DELETE'') False)
       returns_void"

subsection \<open>Comments and replies\<close>

definition listComments ::
  "GoogleDriveClientImpl \<Rightarrow> network \<Rightarrow> string \<Rightarrow> int option \<Rightarrow> string option \<Rightarrow> bool option \<Rightarrow>
     string option \<Rightarrow> promise" where
  "listComments this net fileId pageSize pageToken includeDeleted startModifiedTime =
     (let queryParams = set_if_num [] ''pageSize'' pageSize;
          queryParams = set_if_str queryParams ''pageToken'' pageToken;
          queryParams = set_if_true queryParams ''includeDeleted'' includeDeleted;
          queryParams = set_if_str queryParams ''startModifiedTime'' startModifiedTime;
          queryParams = qp_set queryParams ''fields'' ''nextPageToken,comments(*)''
      in await (request this net (''/files/'' @ fileId @ ''/comments?'' @ qp_toString queryParams)
                  no_options False)
           (paginated ''comments''))"

definition getComment ::
  "GoogleDriveClientImpl \<Rightarrow> network \<Rightarrow> string \<Rightarrow> string \<Rightarrow> bool option \<Rightarrow> promise" where
  "getComment this net fileId commentId includeDeleted =
     (let queryParams = qp_set [] ''fields'' ''*'';
          queryParams = set_if_true queryParams ''includeDeleted'' includeDeleted
      in request this net
           (''/files/'' @ fileId @ ''/comments/'' @ commentId @ ''?'' @ qp_toString queryParams)
           no_options False)"

definition createComment :: "GoogleDriveClientImpl \<Rightarrow> network \<Rightarrow> string \<Rightarrow> jsval \<Rightarrow> promise" where
  "createComment this net fileId params =
     request this net (''/files/'' @ fileId @ ''/comments?fields=*'')
       (with_body ''POST'' (JSON_stringify params)) False"

definition updateComment ::
  "GoogleDriveClientImpl \<Rightarrow> network \<Rightarrow> string \<Rightarrow> string \<Rightarrow> string \<Rightarrow> promise" where
  "updateComment this net fileId commentId content =
     request this net (''/files/'' @ fileId @ ''/comments/'' @ commentId @ ''?fields=*'')
       (with_body ''PATCH'' (JSON_stringify (JObj [(''content'', JStr content)]))) False"

definition deleteComment :: "GoogleDriveClientImpl \<Rightarrow> network \<Rightarrow> string \<Rightarrow> string \<Rightarrow> promise" where
  "deleteComment this net fileId commentId =
     await (request this net (''/files/'' @ fileId @ ''/comments/'' @ commentId)
              (with_method ''DELETE'') False)
       returns_void"

definition listReplies ::
  "GoogleDriveClientImpl \<Rightarrow> network \<Rightarrow> string \<Rightarrow> string \<Rightarrow> int option \<Rightarrow> string option \<Rightarrow>
     bool option \<Rightarrow> promise" where
  "listReplies this net fileId commentId pageSize pageToken includeDeleted =
     (let queryParams = set_if_num [] ''pageSize'' pageSize;
          queryParams = set_if_str queryParams ''pageToken'' pageToken;
          queryParams = set_if_true queryParams ''includeDeleted'' includeDeleted;
          queryParams = qp_set queryParams ''fields'' ''nextPageToken,replies(*)''
      in await (request this net
                  (''/files/'' @ fileId @ ''/comments/'' @ commentId @ ''/replies?'' @
                   qp_toString queryParams)
                  no_options False)
           (paginated ''replies''))"

definition getReply ::
  "GoogleDriveClientImpl \<Rightarrow> network \<Rightarrow> string \<Rightarrow> string \<Rightarrow> string \<Rightarrow> bool option \<Rightarrow> promise" where
  "getReply this net fileId commentId replyId includeDeleted =
     (let queryParams = qp_set [] ''fields'' ''*'';
          queryParams = set_if_true queryParams ''includeDeleted'' includeDeleted
      in request this net
           (''/files/'' @ fileId @ ''/comments/'' @ commentId @ ''/replies/'' @ replyId @ ''?'' @
            qp_toString queryParams)
           no_options False)"

definition createReply ::
  "GoogleDriveClientImpl \<Rightarrow> network \<Rightarrow> string \<Rightarrow> string \<Rightarrow> jsval \<Rightarrow> promise" where
  "createReply this net fileId commentId params =
     request this net (''/files/'' @ fileId @ ''/comments/'' @ commentId @ ''/replies?fields=*'')
       (with_body ''POST'' (JSON_stringify params)) False"

definition updateReply ::
  "GoogleDriveClientImpl \<Rightarrow> network \<Rightarrow> string \<Rightarrow> string \<Rightarrow> string \<Rightarrow> string \<Rightarrow> promise" where
  "updateReply this net fileId commentId replyId content =
     request this net
       (''/files/'' @ fileId @ ''/comments/'' @ commentId @ ''/replies/'' @ replyId @ ''?fields=*'')
       (with_body ''PATCH'' (JSON_stringify (JObj [(''content'', JStr content)]))) False"

definition deleteReply ::
  "GoogleDriveClientImpl \<Rightarrow> network \<Rightarrow> string \<Rightarrow> string \<Rightarrow> string \<Rightarrow> promise" where
  "deleteReply this net fileId commentId replyId =
     await (request this net
              (''/files/'' @ fileId @ ''/comments/'' @ commentId @ ''/replies/'' @ replyId)
              (with_method ''DELETE'') False)
       returns_void"

subsection \<open>Revisions\<close>

definition listRevisions ::
  "GoogleDriveClientImpl \<Rightarrow> network \<Rightarrow> string \<Rightarrow> int option \<Rightarrow> string option \<Rightarrow> promise" where
  "listRevisions this net fileId pageSize pageToken =
     (let queryParams = set_if_num [] ''pageSize'' pageSize;
          queryParams = set_if_str queryParams ''pageToken'' pageToken;
          queryParams = qp_set queryParams ''fields'' ''nextPageToken,revisions(*)''
      in await (request this net (''/files/'' @ fileId @ ''/revisions?'' @ qp_toString queryParams)
                  no_options False)
           (paginated ''revisions''))"

definition getRevision :: "GoogleDriveClientImpl \<Rightarrow> network \<Rightarrow> string \<Rightarrow> string \<Rightarrow> promise" where
  "getRevision this net fileId revisionId =
     request this net (''/files/'' @ fileId @ ''/revisions/'' @ revisionId @ ''?fields=*'')
       no_options False"

definition updateRevision ::
  "GoogleDriveClientImpl \<Rightarrow> network \<Rightarrow> string \<Rightarrow> string \<Rightarrow> jsval \<Rightarrow> promise" where
  "updateRevision this net fileId revisionId params =
     request this net (''/files/'' @ fileId @ ''/revisions/'' @ revisionId @ ''?fields=*'')
       (with_body ''PATCH'' (JSON_stringify params)) False"

definition deleteRevision :: "GoogleDriveClientImpl \<Rightarrow> network \<Rightarrow> string \<Rightarrow> string \<Rightarrow> promise" where
  "deleteRevision this net fileId revisionId =
     await (request this net (''/files/'' @ fileId @ ''/revisions/'' @ revisionId)
              (with_method ''DELETE'') False)
       returns_void"

subsection \<open>Shared drives\<close>

definition listDrives ::
  "GoogleDriveClientImpl \<Rightarrow> network \<Rightarrow> int option \<Rightarrow> string option \<Rightarrow> string option \<Rightarrow>
     bool option \<Rightarrow> promise" where
  "listDrives this net pageSize pageToken q useDomainAdminAccess =
     (let queryParams = set_if_num [] ''pageSize'' pageSize;
          queryParams = set_if_str queryParams ''pageToken'' pageToken;
          queryParams = set_if_str queryParams ''q'' q;
          queryParams = set_if_true queryParams ''useDomainAdminAccess'' useDomainAdminAccess;
          queryParams = qp_set queryParams ''fields'' ''nextPageToken,drives(*)''
      in await (request this net (''/drives?'' @ qp_toString queryParams) no_options False)
           (paginated ''drives''))"

definition getDrive :: "GoogleDriveClientImpl \<Rightarrow> network \<Rightarrow> string \<Rightarrow> bool option \<Rightarrow> promise" where
  "getDrive this net driveId useDomainAdminAccess =
     (let queryParams = qp_set [] ''fields'' ''*'';
          queryParams = set_if_true queryParams ''useDomainAdminAccess'' useDomainAdminAccess
      in request this net (''/drives/'' @ driveId @ ''?'' @ qp_toString queryParams) no_options False)"

definition createDrive :: "GoogleDriveClientImpl \<Rightarrow> network \<Rightarrow> string \<Rightarrow> jsval \<Rightarrow> promise" where
  "createDrive this net requestId params =
     request this net (''/drives?requestId='' @ encodeURIComponent requestId @ ''&fields=*'')
       (with_body ''POST'' (JSON_stringify params)) False"

definition updateDrive :: "GoogleDriveClientImpl \<Rightarrow> network \<Rightarrow> string \<Rightarrow> jsval \<Rightarrow> promise" where
  "updateDrive this net driveId params =
     request this net (''/drives/'' @ driveId @ ''?fields=*'')
       (with_body ''PATCH'' (JSON_stringify params)) False"

definition deleteDrive :: "GoogleDriveClientImpl \<Rightarrow> network \<Rightarrow> string \<Rightarrow> promise" where
  "deleteDrive this net driveId =
     await (request this net (''/drives/'' @ driveId) (with_method ''DELETE'') False) returns_void"

definition hideDrive :: "GoogleDriveClientImpl \<Rightarrow> network \<Rightarrow> string \<Rightarrow> promise" where
  "hideDrive this net driveId =
     request this net (''/drives/'' @ driveId @ ''/hide?fields=*'') (with_method ''POST'') False"

definition unhideDrive :: "GoogleDriveClientImpl \<Rightarrow> network \<Rightarrow> string \<Rightarrow> promise" where
  "unhideDrive this net driveId =
     request this net (''/drives/'' @ driveId @ ''/unhide?fields=*'') (with_method ''POST'') False"

subsection \<open>Changes and channels\<close>

definition getStartPageToken ::
  "GoogleDriveClientImpl \<Rightarrow> network \<Rightarrow> string option \<Rightarrow> bool option \<Rightarrow> promise" where
  "getStartPageToken this net driveId supportsAllDrives =
     (let queryParams = set_if_str [] ''driveId'' driveId;
          queryParams = set_if_true queryParams ''supportsAllDrives'' supportsAllDrives
      in await (request this net (''/changes/startPageToken?'' @ qp_toString queryParams)
                  no_options False)
           (\<lambda>response. get_prop response ''startPageToken''))"

record listChanges_params =
  lc_driveId :: "string option"
  lc_pageSize :: "int option"
  lc_spaces :: "string option"
  lc_includeItemsFromAllDrives :: "bool option"
  lc_supportsAllDrives :: "bool option"
  lc_includeRemoved :: "bool option"
  lc_restrictToMyDrive :: "bool option"

definition listChanges ::
  "GoogleDriveClientImpl \<Rightarrow> network \<Rightarrow> string \<Rightarrow> listChanges_params \<Rightarrow> promise" where
  "listChanges this net pageToken params =
     (let queryParams = qp_set [] ''pageToken'' pageToken;
          queryParams = set_if_str queryParams ''driveId'' (lc_driveId params);
          queryParams = set_if_num queryParams ''pageSize'' (lc_pageSize params);
          queryParams = set_if_str queryParams ''spaces'' (lc_spaces params);
          queryParams = set_if_true queryParams ''includeItemsFromAllDrives''
            (lc_includeItemsFromAllDrives params);
          queryParams = set_if_true queryParams ''supportsAllDrives'' (lc_supportsAllDrives params);
          queryParams = set_if_defined queryParams ''includeRemoved'' (lc_includeRemoved params);
          queryParams = set_if_true queryParams ''restrictToMyDrive'' (lc_restrictToMyDrive params);
          queryParams = qp_set queryParams ''fields'' ''nextPageToken,newStartPageToken,changes(*)''
      in request this net (''/changes?'' @ qp_toString queryParams) no_options False)"

definition watchChanges ::
  "GoogleDriveClientImpl \<Rightarrow> network \<Rightarrow> string \<Rightarrow> jsval \<Rightarrow> string option \<Rightarrow> bool option \<Rightarrow>
     bool option \<Rightarrow> promise" where
  "watchChanges this net pageToken channel driveId includeItemsFromAllDrives supportsAllDrives =
     (let queryParams = qp_set [] ''pageToken'' pageToken;
          queryParams = set_if_str queryParams ''driveId'' driveId;
          queryParams = set_if_true queryParams ''includeItemsFromAllDrives'' includeItemsFromAllDrives;
          queryParams = set_if_true queryParams ''supportsAllDrives'' supportsAllDrives
      in request this net (''/changes/watch?'' @ qp_toString queryParams)
           (with_body ''POST'' (JSON_stringify channel)) False)"

definition stopChannel :: "GoogleDriveClientImpl \<Rightarrow> network \<Rightarrow> string \<Rightarrow> string \<Rightarrow> promise" where
  "stopChannel this net channelId resourceId =
     await (request this net ''/channels/stop''
              (with_body ''POST''
                 (JSON_stringify (JObj [(''id'', JStr channelId), (''resourceId'', JStr resourceId)])))
              False)
       returns_void"

subsection \<open>Apps, access proposals and long-running operations\<close>

definition listApps ::
  "GoogleDriveClientImpl \<Rightarrow> network \<Rightarrow> string option \<Rightarrow> string option \<Rightarrow> string option \<Rightarrow> promise" where
  "listApps this net appFilterExtensions appFilterMimeTypes languageCode =
     (let queryParams = set_if_str [] ''appFilterExtensions'' appFilterExtensions;
          queryParams = set_if_str queryParams ''appFilterMimeTypes'' appFilterMimeTypes;
          queryParams = set_if_str queryParams ''languageCode'' languageCode;
          queryParams = qp_set queryParams ''fields'' ''items(*)''
      in await (request this net (''/apps?'' @ qp_toString queryParams) no_options False)
           (\<lambda>response. case get_prop response ''items'' of
                          Inl e \<Rightarrow> Inl e
                        | Inr arr \<Rightarrow> Inr (js_or arr (JArr []))))"

definition getApp :: "GoogleDriveClientImpl \<Rightarrow> network \<Rightarrow> string \<Rightarrow> promise" where
  "getApp this net appId = request this net (''/apps/'' @ appId @ ''?fields=*'') no_options False"

definition listAccessProposals ::
  "GoogleDriveClientImpl \<Rightarrow> network \<Rightarrow> string \<Rightarrow> int option \<Rightarrow> string option \<Rightarrow> promise" where
  "listAccessProposals this net fileId pageSize pageToken =
     (let queryParams = set_if_num [] ''pageSize'' pageSize;
          queryParams = set_if_str queryParams ''pageToken'' pageToken
      in await (request this net
                  (''/files/'' @ fileId @ ''/accessproposals?'' @ qp_toString queryParams)
                  no_options False)
           (paginated ''accessProposals''))"

definition getAccessProposal ::
  "GoogleDriveClientImpl \<Rightarrow> network \<Rightarrow> string \<Rightarrow> string \<Rightarrow> promise" where
  "getAccessProposal this net fileId proposalId =
     request this net (''/files/'' @ fileId @ ''/accessproposals/'' @ proposalId) no_options False"

definition resolveAccessProposal ::
  "GoogleDriveClientImpl \<Rightarrow> network \<Rightarrow> string \<Rightarrow> string \<Rightarrow> string \<Rightarrow> string option \<Rightarrow>
     string option \<Rightarrow> bool option \<Rightarrow> promise" where
  "resolveAccessProposal this net fileId proposalId action role view sendNotification =
     (let queryParams = qp_set [] ''action'' action;
          queryParams = set_if_str queryParams ''role'' role;
          queryParams = set_if_str queryParams ''view'' view;
          queryParams = set_if_defined queryParams ''sendNotification'' sendNotification
      in await (request this net
                  (''/files/'' @ fileId @ ''/accessproposals/'' @ proposalId @ '':resolve?'' @
                   qp_toString queryParams)
                  (with_method ''POST'') False)
           returns_void)"

definition getOperation :: "GoogleDriveClientImpl \<Rightarrow> network \<Rightarrow> string \<Rightarrow> promise" where
  "getOperation this net operationName =
     request this net (''/operations/'' @ operationName) no_options False"

subsection \<open>The operations of the client interface\<close>

text \<open>
  The methods of the client interface with their arguments, grouped as the interface
  groups them, and the method each one stands for.
\<close>

datatype about_operation =
    TestConnection "error \<Rightarrow> jsval"
  | GetAbout "string option"

datatype file_operation =
    ListFiles listFiles_params
  | GetFile string "string option"
  | CreateFile createFile_params
  | UpdateFile string updateFile_params
  | CopyFile string jsval
  | DeleteFile string
  | EmptyTrash
  | ExportFile string string
  | DownloadFile string
  | GenerateIds "int option" "string option"
  | ListLabels string
  | ModifyLabels string jsval
  | WatchFile string jsval

datatype folder_operation =
    CreateFolder string "string list option"
  | ListFolderContents string "int option" "string option" "string option"

datatype permission_operation =
    ListPermissions string "int option" "string option" "bool option"
  | GetPermission string string
  | CreatePermission string createPermission_params
  | UpdatePermission string string jsval
  | DeletePermission string string

datatype comment_operation =
    ListComments string "int option" "string option" "bool option" "string option"
  | GetComment string string "bool option"
  | CreateComment string jsval
  | UpdateComment string string string
  | DeleteComment string string

datatype reply_operation =
    ListReplies string string "int option" "string option" "bool option"
  | GetReply string string string "bool option"
  | CreateReply string string jsval
  | UpdateReply string string string string
  | DeleteReply string string string

datatype revision_operation =
    ListRevisions string "int option" "string option"
  | GetRevision string string
  | UpdateRevision string string jsval
  | DeleteRevision string string

datatype drive_operation =
    ListDrives "int option" "string option" "string option" "bool option"
  | GetDrive string "bool option"
  | CreateDrive string jsval
  | UpdateDrive string jsval
  | DeleteDrive string
  | HideDrive string
  | UnhideDrive string

datatype change_operation =
    GetStartPageToken "string option" "bool option"
  | ListChanges string listChanges_params
  | WatchChanges string jsval "string option" "bool option" "bool option"
  | StopChannel string string

datatype app_operation =
    ListApps "string option" "string option" "string option"
  | GetApp string

datatype access_proposal_operation =
    ListAccessProposals string "int option" "string option"
  | GetAccessProposal string string
  | ResolveAccessProposal string string string "string option" "string option" "bool option"

datatype operation =
    AboutOp about_operation
  | FileOp file_operation
  | FolderOp folder_operation
  | PermissionOp permission_operation
  | CommentOp comment_operation
  | ReplyOp reply_operation
  | RevisionOp revision_operation
  | DriveOp drive_operation
  | ChangeOp change_operation
  | AppOp app_operation
  | AccessProposalOp access_proposal_operation
  | GetOperation string

fun perform_about :: "GoogleDriveClientImpl \<Rightarrow> network \<Rightarrow> about_operation \<Rightarrow> promise" where
  "perform_about this net (TestConnection m) = testConnection this net m"
| "perform_about this net (GetAbout f) = getAbout this net f"

fun perform_file :: "GoogleDriveClientImpl \<Rightarrow> network \<Rightarrow> file_operation \<Rightarrow> promise" where
  "perform_file this net (ListFiles p) = listFiles this net p"
| "perform_file this net (GetFile i f) = getFile this net i f"
| "perform_file this net (CreateFile p) = createFile this net p"
| "perform_file this net (UpdateFile i p) = updateFile this net i p"
| "perform_file this net (CopyFile i p) = copyFile this net i p"
| "perform_file this net (DeleteFile i) = deleteFile this net i"
| "perform_file this net EmptyTrash = emptyTrash this net"
| "perform_file this net (ExportFile i m) = exportFile this net i m"
| "perform_file this net (DownloadFile i) = downloadFile this net i"
| "perform_file this net (GenerateIds c s) = generateIds this net c s"
| "perform_file this net (ListLabels i) = listLabels this net i"
| "perform_file this net (ModifyLabels i l) = modifyLabels this net i l"
| "perform_file this net (WatchFile i c) = watchFile this net i c"

fun perform_folder :: "GoogleDriveClientImpl \<Rightarrow> network \<Rightarrow> folder_operation \<Rightarrow> promise" where
  "perform_folder this net (CreateFolder n ps) = createFolder this net n ps"
| "perform_folder this net (ListFolderContents i s t ob) = listFolderContents this net i s t ob"

fun perform_permission :: "GoogleDriveClientImpl \<Rightarrow> network \<Rightarrow> permission_operation \<Rightarrow> promise" where
  "perform_permission this net (ListPermissions i s t a) = listPermissions this net i s t a"
| "perform_permission this net (GetPermission i p) = getPermission this net i p"
| "perform_permission this net (CreatePermission i p) = createPermission this net i p"
| "perform_permission this net (UpdatePermission i pid p) = updatePermission this net i pid p"
| "perform_permission this net (DeletePermission i p) = deletePermission this net i p"

fun perform_comment :: "GoogleDriveClientImpl \<Rightarrow> network \<Rightarrow> comment_operation \<Rightarrow> promise" where
  "perform_comment this net (ListComments i s t d m) = listComments this net i s t d m"
| "perform_comment this net (GetComment i c d) = getComment this net i c d"
| "perform_comment this net (CreateComment i p) = createComment this net i p"
| "perform_comment this net (UpdateComment i c t) = updateComment this net i c t"
| "perform_comment this net (DeleteComment i c) = deleteComment this net i c"

fun perform_reply :: "GoogleDriveClientImpl \<Rightarrow> network \<Rightarrow> reply_operation \<Rightarrow> promise" where
  "perform_reply this net (ListReplies i c s t d) = listReplies this net i c s t d"
| "perform_reply this net (GetReply i c r d) = getReply this net i c r d"
| "perform_reply this net (CreateReply i c p) = createReply this net i c p"
| "perform_reply this net (UpdateReply i c r t) = updateReply this net i c r t"
| "perform_reply this net (DeleteReply i c r) = deleteReply this net i c r"

fun perform_revision :: "GoogleDriveClientImpl \<Rightarrow> network \<Rightarrow> revision_operation \<Rightarrow> promise" where
  "perform_revision this net (ListRevisions i s t) = listRevisions this net i s t"
| "perform_revision this net (GetRevision i r) = getRevision this net i r"
| "perform_revision this net (UpdateRevision i r p) = updateRevision this net i r p"
| "perform_revision this net (DeleteRevision i r) = deleteRevision this net i r"

fun perform_drive :: "GoogleDriveClientImpl \<Rightarrow> network \<Rightarrow> drive_operation \<Rightarrow> promise" where
  "perform_drive this net (ListDrives s t q a) = listDrives this net s t q a"
| "perform_drive this net (GetDrive d a) = getDrive this net d a"
| "perform_drive this net (CreateDrive r p) = createDrive this net r p"
| "perform_drive this net (UpdateDrive d p) = updateDrive this net d p"
| "perform_drive this net (DeleteDrive d) = deleteDrive this net d"
| "perform_drive this net (HideDrive d) = hideDrive this net d"
| "perform_drive this net (UnhideDrive d) = unhideDrive this net d"

fun perform_change :: "GoogleDriveClientImpl \<Rightarrow> network \<Rightarrow> change_operation \<Rightarrow> promise" where
  "perform_change this net (GetStartPageToken d a) = getStartPageToken this net d a"
| "perform_change this net (ListChanges t p) = listChanges this net t p"
| "perform_change this net (WatchChanges t c d i a) = watchChanges this net t c d i a"
| "perform_change this net (StopChannel c r) = stopChannel this net c r"

fun perform_app :: "GoogleDriveClientImpl \<Rightarrow> network \<Rightarrow> app_operation \<Rightarrow> promise" where
  "perform_app this net (ListApps e m l) = listApps this net e m l"
| "perform_app this net (GetApp a) = getApp this net a"

fun perform_access_proposal :: "GoogleDriveClientImpl \<Rightarrow> network \<Rightarrow> access_proposal_operation \<Rightarrow> promise" where
  "perform_access_proposal this net (ListAccessProposals i s t) = listAccessProposals this net i s t"
| "perform_access_proposal this net (GetAccessProposal i p) = getAccessProposal this net i p"
| "perform_access_proposal this net (ResolveAccessProposal i p a r v n) = resolveAccessProposal this net i p a r v n"

fun perform :: "GoogleDriveClientImpl \<Rightarrow> network \<Rightarrow> operation \<Rightarrow> promise" where
  "perform this net (AboutOp x) = perform_about this net x"
| "perform this net (FileOp x) = perform_file this net x"
| "perform this net (FolderOp x) = perform_folder this net x"
| "perform this net (PermissionOp x) = perform_permission this net x"
| "perform this net (CommentOp x) = perform_comment this net x"
| "perform this net (ReplyOp x) = perform_reply this net x"
| "perform this net (RevisionOp x) = perform_revision this net x"
| "perform this net (DriveOp x) = perform_drive this net x"
| "perform this net (ChangeOp x) = perform_change this net x"
| "perform this net (AppOp x) = perform_app this net x"
| "perform this net (AccessProposalOp x) = perform_access_proposal this net x"
| "perform this net (GetOperation n) = getOperation this net n"

text \<open>The listings and the name of the resource array in what the remote service answers.\<close>

fun resource_array :: "operation \<Rightarrow> string option" where
  "resource_array (FileOp (ListFiles p)) = Some ''files''"
| "resource_array (FolderOp (ListFolderContents i s t ob)) = Some ''files''"
| "resource_array (PermissionOp (ListPermissions i s t a)) = Some ''permissions''"
| "resource_array (CommentOp (ListComments i s t d m)) = Some ''comments''"
| "resource_array (ReplyOp (ListReplies i c s t d)) = Some ''replies''"
| "resource_array (RevisionOp (ListRevisions i s t)) = Some ''revisions''"
| "resource_array (DriveOp (ListDrives s t q a)) = Some ''drives''"
| "resource_array (AccessProposalOp (ListAccessProposals i s t)) = Some ''accessProposals''"
| "resource_array _ = None"

text \<open>The operations that send content: a multipart upload.\<close>

fun uploads :: "operation \<Rightarrow> bool" where
  "uploads (FileOp (CreateFile p)) = str_truthy (cf_content p)"
| "uploads (FileOp (UpdateFile i p)) = str_truthy (uf_content p)"
| "uploads _ = False"

text \<open>
  \<open>makes_one_call this up p\<close>: whatever calls were made before, \<open>p\<close> adds exactly one,
  the call of the pipeline for some endpoint, with the base URL chosen by \<open>up\<close>.
\<close>

definition makes_one_call :: "GoogleDriveClientImpl \<Rightarrow> bool \<Rightarrow> promise \<Rightarrow> bool" where
  "makes_one_call this up p =
     (\<forall>calls. \<exists>ep opts. snd (p calls) = calls @ [the_call this ep opts up] \<and> prefix ''/'' ep)"


text \<open>
  What an operation does with an error thrown by the pipeline: it lets it through,
  except \<open>testConnection\<close>, whose \<open>catch\<close> reports it.
\<close>

fun thrown :: "operation \<Rightarrow> error \<Rightarrow> error + jsval" where
  "thrown (AboutOp (TestConnection message_of)) e =
     Inr (JObj [(''connected'', JBool False), (''message'', message_of e)])"
| "thrown _ e = Inl e"

text \<open>What an operation returns for the payload the pipeline resolves with.\<close>

fun returned :: "operation \<Rightarrow> jsval \<Rightarrow> error + jsval" where
  "returned (AboutOp (TestConnection message_of)) about =
     (case get_prop about ''user'' of
        Inl e \<Rightarrow> Inr (JObj [(''connected'', JBool False), (''message'', message_of e)])
      | Inr user \<Rightarrow>
          Inr (JObj [(''connected'', JBool True),
                     (''message'', JStr (''Connected to Google Drive as '' @
                        js_toString (js_or (opt_prop user ''displayName'')
                          (js_or (opt_prop user ''emailAddress'') (JStr ''unknown user'')))))]))"
| "returned (FileOp (DeleteFile i)) v = returns_void v"
| "returned (FileOp EmptyTrash) v = returns_void v"
| "returned (FileOp (GenerateIds c s)) response = get_prop response ''ids''"
| "returned (PermissionOp (DeletePermission i p)) v = returns_void v"
| "returned (CommentOp (DeleteComment i c)) v = returns_void v"
| "returned (ReplyOp (DeleteReply i c r)) v = returns_void v"
| "returned (RevisionOp (DeleteRevision i r)) v = returns_void v"
| "returned (DriveOp (DeleteDrive d)) v = returns_void v"
| "returned (ChangeOp (GetStartPageToken d a)) response = get_prop response ''startPageToken''"
| "returned (ChangeOp (StopChannel c r)) v = returns_void v"
| "returned (AppOp (ListApps e m l)) response =
     (case get_prop response ''items'' of
        Inl e \<Rightarrow> Inl e
      | Inr arr \<Rightarrow> Inr (js_or arr (JArr [])))"
| "returned (AccessProposalOp (ResolveAccessProposal i p a r v n)) response = returns_void response"
| "returned op response =
     (case resource_array op of
        None \<Rightarrow> Inr response
      | Some key \<Rightarrow> paginated key response)"

text \<open>
  \<open>settles this net up T R p\<close>: \<open>p\<close> is one call of the pipeline, for some endpoint and
  options, followed by \<open>T\<close> on the error it throws or \<open>R\<close> on the payload it resolves with.
\<close>

definition settles ::
  "GoogleDriveClientImpl \<Rightarrow> network \<Rightarrow> bool \<Rightarrow> (error \<Rightarrow> error + jsval) \<Rightarrow>
   (jsval \<Rightarrow> error + jsval) \<Rightarrow> promise \<Rightarrow> bool" where
  "settles this net up T R p =
     (\<exists>ep opts. prefix ''/'' ep \<and>
        (\<forall>calls. p calls =
           (case fst (request this net ep opts up calls) of Inl e \<Rightarrow> T e | Inr v \<Rightarrow> R v,
            snd (request this net ep opts up calls))))"

section \<open>The tools\<close>

text \<open>
  A tool handler awaits the client inside \<open>try\<close> and renders what it gets as text;
  whatever is thrown is caught and rendered by \<open>formatError\<close>. The model keeps the
  client calls of a handler and what flows from one to the next, \<open>Inl\<close> when the handler
  goes to \<open>catch\<close>; the rendering of the result reads and formats it and makes no call.
  The arguments of a tool are those its schema yields: a parameter with a default is
  always present.
\<close>

definition then_do :: "promise \<Rightarrow> (jsval \<Rightarrow> promise) \<Rightarrow> promise" where
  "then_do p f calls =
     (case p calls of
        (Inl e, calls') \<Rightarrow> (Inl e, calls')
      | (Inr v, calls') \<Rightarrow> f v calls')"



























section \<open>Properties of the pipeline\<close>


lemma request_resolved:
  "str_truthy (accessToken (credentials this)) \<Longrightarrow>
   net calls (the_call this endpoint options up) = Inr r \<Longrightarrow>
   request this net endpoint options up calls =
     (interpret_response endpoint r, calls @ [the_call this endpoint options up])"
  by (simp add: request_def getAuthHeaders_def the_call_def)

lemma request_rejected:
  "str_truthy (accessToken (credentials this)) \<Longrightarrow>
   net calls (the_call this endpoint options up) = Inl e \<Longrightarrow>
   request this net endpoint options up calls = (Inl e, calls @ [the_call this endpoint options up])"
  by (simp add: request_def getAuthHeaders_def the_call_def)

lemma request_one_call:
  "str_truthy (accessToken (credentials this)) \<Longrightarrow>
   snd (request this net endpoint options up calls) = calls @ [the_call this endpoint options up]"
  by (cases "net calls (the_call this endpoint options up)")
     (simp_all add: request_resolved request_rejected)

lemma get_prop_nullish: "v = Undefined \<or> v = JNull \<Longrightarrow> get_prop v k = Inl TypeError"
  by (auto simp: get_prop_def)

lemma get_prop_defined: "v \<noteq> Undefined \<Longrightarrow> v \<noteq> JNull \<Longrightarrow> get_prop v k = Inr (opt_prop v k)"
  by (cases v) (simp_all add: get_prop_def opt_prop_def split: option.splits)

lemma opt_prop_nullish: "v = Undefined \<or> v = JNull \<Longrightarrow> opt_prop v k = Undefined"
  by (auto simp: opt_prop_def get_prop_def)

lemma js_or_Undefined: "js_or Undefined d = d"
  by (simp add: js_or_def)

lemma error_message_chain:
  "(case get_prop j ''error'' of
      Inl e \<Rightarrow> d
    | Inr err \<Rightarrow>
        (case get_prop j ''message'' of
           Inl e \<Rightarrow> d
         | Inr msg \<Rightarrow> js_or (opt_prop err ''message'') (js_or msg d)))
   = js_or (opt_prop (opt_prop j ''error'') ''message'') (js_or (opt_prop j ''message'') d)"
proof (cases "j = Undefined \<or> j = JNull")
  case True
  then show ?thesis
    by (simp add: get_prop_nullish opt_prop_nullish js_or_Undefined)
next
  case False
  then show ?thesis
    by (simp add: get_prop_defined)
qed

definition example_client :: GoogleDriveClientImpl where
  "example_client = createGoogleDriveClient \<lparr>accessToken = Some ''ya29.token'', baseUrl = None\<rparr>"

lemma example_client_token: "str_truthy (accessToken (credentials example_client))"
  by (simp add: example_client_def createGoogleDriveClient_def str_truthy_def)

lemma parse_example_body:
  "JSON_parse ''{\"id\":\"f1\"}'' = Inr (JObj [(''id'', JStr ''f1'')])"
  by (simp add: JSON_parse_def skip_ws_def is_ws_def)

lemma parse_error_body:
  "JSON_parse ''{\"error\":{\"code\":500,\"message\":\"Backend Error\"}}'' =
     Inr (JObj [(''error'', JObj [(''code'', JNum ''500''), (''message'', JStr ''Backend Error'')])])"
  by (simp add: JSON_parse_def skip_ws_def is_ws_def scan_number_def scan_frac_def scan_exp_def is_digit_def)

lemma parse_html_body: "JSON_parse ''<html>Bad Gateway</html>'' = Inl SyntaxError"
  by (simp add: JSON_parse_def skip_ws_def is_ws_def scan_number_def is_digit_def)

text \<open>
  A response with status 429 makes the pipeline fail with a RateLimitError. Its
  retry-after value is 60 when the response has no \<open>Retry-After\<close> header (or an empty
  one) and is what \<open>parseInt\<close> gives for the header otherwise.
\<close>

lemma request_429:
  assumes "str_truthy (accessToken (credentials this))"
    and "net calls (the_call this endpoint options useUploadUrl) = Inr r"
    and "status r = 429"
  shows "fst (request this net endpoint options useUploadUrl calls) =
     Inl (RateLimitError ''Rate limit exceeded''
       (case headers_get (response_headers r) ''Retry-After'' of
          None \<Rightarrow> Num 60
        | Some v \<Rightarrow> if v = [] then Num 60 else parseInt v))"
  using assms
  by (cases "headers_get (response_headers r) ''Retry-After''")
     (simp_all add: request_resolved interpret_response_def str_truthy_def str_or_def)

lemma retry_after_120_example:
  "fst (request example_client
     (\<lambda>calls call. Inr \<lparr>status = 429, response_headers = [(''retry-after'', ''120'')],
        response_text = []\<rparr>)
     ''/files'' no_options False [])
   = Inl (RateLimitError ''Rate limit exceeded'' (Num 120))"
  by (simp add: request_429 [where r = "\<lparr>status = 429, response_headers = [(''retry-after'', ''120'')],
        response_text = []\<rparr>"] example_client_token headers_get_def ascii_lower_def
        parseInt_def ws_len_def js_whitespace_def is_digit_def digits_val_def digit_val_def)

lemma retry_after_absent_example:
  "fst (request example_client
     (\<lambda>calls call. Inr \<lparr>status = 429, response_headers = [], response_text = []\<rparr>)
     ''/files'' no_options False [])
   = Inl (RateLimitError ''Rate limit exceeded'' (Num 60))"
  by (simp add: request_429 [where r = "\<lparr>status = 429, response_headers = [], response_text = []\<rparr>"]
        example_client_token headers_get_def)

text \<open>
  C3. A response with status 429 whose \<open>Retry-After\<close> header starts with no integer, as
  an HTTP date does, makes the pipeline fail with a RateLimitError whose retry-after
  value is \<open>NaN\<close>, not 60: the default of 60 is taken only when the header is absent or
  empty.
\<close>

theorem C3_unparsable_retry_after_gives_NaN:
  "fst (request example_client
     (\<lambda>calls call. Inr \<lparr>status = 429,
        response_headers = [(''Retry-After'', ''Wed, 21 Oct 2015 07:28:00 GMT'')],
        response_text = []\<rparr>)
     ''/files'' no_options False [])
   = Inl (RateLimitError ''Rate limit exceeded'' NaN)"
  by (simp add: request_429 [where r = "\<lparr>status = 429,
        response_headers = [(''Retry-After'', ''Wed, 21 Oct 2015 07:28:00 GMT'')],
        response_text = []\<rparr>"] example_client_token headers_get_def ascii_lower_def
        parseInt_def ws_len_def js_whitespace_def is_digit_def)

section \<open>Properties of the operations\<close>

lemma await_snd: "snd (await p f calls) = snd (p calls)"
  by (simp add: await_def split: prod.splits sum.splits)

lemma await_fst:
  "fst (await p f calls) = (case fst (p calls) of Inl e \<Rightarrow> Inl e | Inr v \<Rightarrow> f v)"
  by (simp add: await_def split: prod.splits sum.splits)

lemma interpret_response_success:
  "interpret_response ep r = Inr v \<Longrightarrow> interpret_response ep' r = Inr v"
  by (simp add: interpret_response_def Let_def split: if_splits)

lemma paginated_defined:
  "response \<noteq> Undefined \<Longrightarrow> response \<noteq> JNull \<Longrightarrow>
   paginated key response =
     Inr (JObj [(''items'', js_or (opt_prop response key) (JArr [])),
                (''hasMore'', JBool (truthy (opt_prop response ''nextPageToken''))),
                (''nextPageToken'', opt_prop response ''nextPageToken'')])"
  by (simp add: paginated_def get_prop_defined)

lemma paginated_nullish:
  "response = Undefined \<or> response = JNull \<Longrightarrow> paginated key response = Inl TypeError"
  by (auto simp: paginated_def get_prop_def)

definition files_page :: Response where
  "files_page =
     \<lparr>status = 200,
      response_headers = [(''Content-Type'', ''application/json; charset=UTF-8'')],
      response_text = ''{\"files\":[{\"id\":\"a\"}],\"nextPageToken\":\"tok2\"}''\<rparr>"

definition last_page :: Response where
  "last_page =
     \<lparr>status = 200,
      response_headers = [(''Content-Type'', ''application/json; charset=UTF-8'')],
      response_text = ''{\"kind\":\"drive#fileList\"}''\<rparr>"

definition no_params :: listFiles_params where
  "no_params =
     \<lparr>lf_q = None, lf_pageSize = None, lf_pageToken = None, lf_fields = None, lf_orderBy = None,
      lf_spaces = None, lf_corpora = None, lf_driveId = None,
      lf_includeItemsFromAllDrives = None, lf_supportsAllDrives = None\<rparr>"

lemma interpret_files_page:
  "interpret_response ep files_page =
     Inr (JObj [(''files'', JArr [JObj [(''id'', JStr ''a'')]]), (''nextPageToken'', JStr ''tok2'')])"
  by (simp add: interpret_response_def files_page_def response_ok_def headers_get_def
        ascii_lower_def JSON_parse_def skip_ws_def is_ws_def)

lemma interpret_last_page:
  "interpret_response ep last_page = Inr (JObj [(''kind'', JStr ''drive#fileList'')])"
  by (simp add: interpret_response_def last_page_def response_ok_def headers_get_def
        ascii_lower_def JSON_parse_def skip_ws_def is_ws_def)

lemma makes_one_call_request:
  "str_truthy (accessToken (credentials this)) \<Longrightarrow> prefix ''/'' ep \<Longrightarrow>
   makes_one_call this up (request this net ep opts up)"
  unfolding makes_one_call_def by (auto simp: request_one_call)

lemma makes_one_call_await:
  "makes_one_call this up p \<Longrightarrow> makes_one_call this up (await p f)"
  unfolding makes_one_call_def by (simp add: await_snd)

lemma makes_one_call_testConnection:
  assumes "str_truthy (accessToken (credentials this))"
  shows "makes_one_call this False (testConnection this net m)"
proof -
  have "snd (testConnection this net m calls) = snd (getAbout this net (Some ''user'') calls)" for calls
    by (simp add: testConnection_def split: prod.splits sum.splits)
  moreover have "makes_one_call this False (getAbout this net (Some ''user''))"
    unfolding getAbout_def using assms by (intro makes_one_call_request) simp_all
  ultimately show ?thesis
    unfolding makes_one_call_def by simp
qed

lemmas operation_defs =
  getAbout_def listFiles_def getFile_def createFile_def updateFile_def copyFile_def deleteFile_def
  emptyTrash_def exportFile_def downloadFile_def generateIds_def listLabels_def modifyLabels_def
  watchFile_def createFolder_def listFolderContents_def listPermissions_def getPermission_def
  createPermission_def updatePermission_def deletePermission_def listComments_def getComment_def
  createComment_def updateComment_def deleteComment_def listReplies_def getReply_def
  createReply_def updateReply_def deleteReply_def listRevisions_def getRevision_def
  updateRevision_def deleteRevision_def listDrives_def getDrive_def createDrive_def
  updateDrive_def deleteDrive_def hideDrive_def unhideDrive_def getStartPageToken_def
  listChanges_def watchChanges_def stopChannel_def listApps_def getApp_def
  listAccessProposals_def getAccessProposal_def resolveAccessProposal_def getOperation_def

lemma perform_makes_one_call:
  assumes "str_truthy (accessToken (credentials this))"
  shows "makes_one_call this (uploads op) (perform this net op)"
proof (cases op)
  case (AboutOp x)
  then show ?thesis using assms
    by (cases x) (auto simp: operation_defs intro!: makes_one_call_testConnection makes_one_call_request)
next
  case (FileOp x)
  then show ?thesis using assms
    by (cases x) (auto simp: operation_defs Let_def intro!: makes_one_call_await makes_one_call_request)
next
  case (FolderOp x)
  then show ?thesis using assms
    by (cases x) (auto simp: operation_defs Let_def str_truthy_def intro!: makes_one_call_await makes_one_call_request)
next
  case (PermissionOp x)
  then show ?thesis using assms
    by (cases x) (auto simp: operation_defs Let_def intro!: makes_one_call_await makes_one_call_request)
next
  case (CommentOp x)
  then show ?thesis using assms
    by (cases x) (auto simp: operation_defs Let_def intro!: makes_one_call_await makes_one_call_request)
next
  case (ReplyOp x)
  then show ?thesis using assms
    by (cases x) (auto simp: operation_defs Let_def intro!: makes_one_call_await makes_one_call_request)
next
  case (RevisionOp x)
  then show ?thesis using assms
    by (cases x) (auto simp: operation_defs Let_def intro!: makes_one_call_await makes_one_call_request)
next
  case (DriveOp x)
  then show ?thesis using assms
    by (cases x) (auto simp: operation_defs Let_def intro!: makes_one_call_await makes_one_call_request)
next
  case (ChangeOp x)
  then show ?thesis using assms
    by (cases x) (auto simp: operation_defs Let_def intro!: makes_one_call_await makes_one_call_request)
next
  case (AppOp x)
  then show ?thesis using assms
    by (cases x) (auto simp: operation_defs Let_def intro!: makes_one_call_await makes_one_call_request)
next
  case (AccessProposalOp x)
  then show ?thesis using assms
    by (cases x) (auto simp: operation_defs Let_def intro!: makes_one_call_await makes_one_call_request)
next
  case (GetOperation n)
  then show ?thesis using assms
    by (auto simp: operation_defs intro!: makes_one_call_request)
qed

lemma url_the_call:
  "url (the_call this ep opts up) = (if up then this_uploadUrl this else this_baseUrl this) @ ep"
  by (simp add: the_call_def fetch_args_def)

text \<open>
  C10. For a client built from credentials with a non-empty base URL override, every
  operation makes one call; the call of a multipart upload (createFile or updateFile with
  content) goes to the fixed upload URL and the call of every other operation goes to
  the override.
\<close>

theorem C10_override_only_for_metadata_calls:
  assumes "baseUrl c = Some b" and "b \<noteq> []" and "str_truthy (accessToken c)"
  shows "\<exists>call ep. snd (perform (createGoogleDriveClient c) net op calls) = calls @ [call]
           \<and> url call = (if uploads op then UPLOAD_BASE_URL else b) @ ep
           \<and> prefix ''/'' ep"
proof -
  let ?cl = "createGoogleDriveClient c"
  have tok: "str_truthy (accessToken (credentials ?cl))"
    using assms(3) by (simp add: createGoogleDriveClient_def)
  have urls: "this_uploadUrl ?cl = UPLOAD_BASE_URL" "this_baseUrl ?cl = b"
    using assms(1,2) by (simp_all add: createGoogleDriveClient_def str_or_def)
  from perform_makes_one_call [OF tok, of op net]
  obtain ep opts where
    "snd (perform ?cl net op calls) = calls @ [the_call ?cl ep opts (uploads op)]"
    and "prefix ''/'' ep"
    unfolding makes_one_call_def by blast
  then show ?thesis
    using urls by (auto simp: url_the_call)
qed

theorem C10_override_witness:
  "\<exists>call ep.
     snd (perform (createGoogleDriveClient \<lparr>accessToken = Some ''tok'', baseUrl = Some ''https://proxy.example/drive''\<rparr>)
            (\<lambda>cs c. Inr last_page)
            (FileOp (CreateFile \<lparr>cf_name = ''a.txt'', cf_mimeType = None, cf_parents = None,
                                 cf_description = None, cf_content = Some ''hello''\<rparr>)) [])
       = [call]
     \<and> url call = UPLOAD_BASE_URL @ ep \<and> prefix ''/'' ep"
  using C10_override_only_for_metadata_calls
    [where c = "\<lparr>accessToken = Some ''tok'', baseUrl = Some ''https://proxy.example/drive''\<rparr>"
       and b = "''https://proxy.example/drive''" and net = "\<lambda>cs c. Inr last_page" and calls = "[]"
       and op = "FileOp (CreateFile \<lparr>cf_name = ''a.txt'', cf_mimeType = None, cf_parents = None,
                                 cf_description = None, cf_content = Some ''hello''\<rparr>)"]
  by (simp add: str_truthy_def)









section \<open>Every operation through the pipeline\<close>

text \<open>
  Every operation is one call of the pipeline followed by what the operation does with
  its outcome.
\<close>

lemma settles_request:
  "prefix ''/'' ep \<Longrightarrow> settles this net up Inl Inr (request this net ep opts up)"
  unfolding settles_def
  by (rule exI [of _ ep], rule exI [of _ opts]) (simp split: sum.splits prod.splits add: prod_eq_iff)

lemma settles_await:
  "prefix ''/'' ep \<Longrightarrow> settles this net up Inl f (await (request this net ep opts up) f)"
  unfolding settles_def
  by (rule exI [of _ ep], rule exI [of _ opts]) (simp add: await_def split: sum.splits prod.splits)

lemma settles_testConnection:
  "settles this net False
     (\<lambda>e. Inr (JObj [(''connected'', JBool False), (''message'', m e)]))
     (\<lambda>about. case get_prop about ''user'' of
        Inl e \<Rightarrow> Inr (JObj [(''connected'', JBool False), (''message'', m e)])
      | Inr user \<Rightarrow>
          Inr (JObj [(''connected'', JBool True),
                     (''message'', JStr (''Connected to Google Drive as '' @
                        js_toString (js_or (opt_prop user ''displayName'')
                          (js_or (opt_prop user ''emailAddress'') (JStr ''unknown user'')))))]))
     (testConnection this net m)"
  unfolding settles_def getAbout_def testConnection_def
  by (rule exI [of _ "''/about?fields='' @ encodeURIComponent ''user''"], rule exI [of _ no_options])
     (simp split: sum.splits prod.splits)

lemma perform_settles:
  "settles this net (uploads op) (\<lambda>e. thrown op e) (\<lambda>v. returned op v) (perform this net op)"
proof (cases op)
  case (AboutOp x)
  then show ?thesis
    by (cases x) (auto simp: operation_defs intro!: settles_testConnection settles_request)
next
  case (FileOp x)
  then show ?thesis
    by (cases x) (auto simp: operation_defs Let_def intro!: settles_await settles_request)
next
  case (FolderOp x)
  then show ?thesis
    by (cases x) (auto simp: operation_defs Let_def str_truthy_def intro!: settles_await settles_request)
next
  case (PermissionOp x)
  then show ?thesis
    by (cases x) (auto simp: operation_defs Let_def intro!: settles_await settles_request)
next
  case (CommentOp x)
  then show ?thesis
    by (cases x) (auto simp: operation_defs Let_def intro!: settles_await settles_request)
next
  case (ReplyOp x)
  then show ?thesis
    by (cases x) (auto simp: operation_defs Let_def intro!: settles_await settles_request)
next
  case (RevisionOp x)
  then show ?thesis
    by (cases x) (auto simp: operation_defs Let_def intro!: settles_await settles_request)
next
  case (DriveOp x)
  then show ?thesis
    by (cases x) (auto simp: operation_defs Let_def intro!: settles_await settles_request)
next
  case (ChangeOp x)
  then show ?thesis
    by (cases x) (auto simp: operation_defs Let_def intro!: settles_await settles_request)
next
  case (AppOp x)
  then show ?thesis
    by (cases x) (auto simp: operation_defs Let_def intro!: settles_await settles_request)
next
  case (AccessProposalOp x)
  then show ?thesis
    by (cases x) (auto simp: operation_defs Let_def intro!: settles_await settles_request)
next
  case (GetOperation n)
  then show ?thesis
    by (auto simp: operation_defs intro!: settles_request)
qed

lemma thrown_cases:
  "thrown op e =
     (case op of
        AboutOp (TestConnection message_of) \<Rightarrow>
          Inr (JObj [(''connected'', JBool False), (''message'', message_of e)])
      | _ \<Rightarrow> Inl e)"
  by (simp split: operation.splits about_operation.splits)

lemma request_with_token:
  assumes "str_truthy (accessToken (credentials this))"
  shows "request this net ep opts up calls =
     (case net calls (the_call this ep opts up) of
        Inl e \<Rightarrow> Inl e
      | Inr r \<Rightarrow> interpret_response ep r,
      calls @ [the_call this ep opts up])"
  using assms
  by (cases "net calls (the_call this ep opts up)")
     (simp_all add: request_resolved request_rejected)


lemma perform_with_token:
  assumes "str_truthy (accessToken (credentials this))"
  shows "\<exists>ep opts. prefix ''/'' ep \<and>
     perform this net op calls =
       (case net calls (the_call this ep opts (uploads op)) of
          Inl e \<Rightarrow> thrown op e
        | Inr r \<Rightarrow>
            (case interpret_response ep r of
               Inl e \<Rightarrow> thrown op e
             | Inr v \<Rightarrow> returned op v),
        calls @ [the_call this ep opts (uploads op)])"
proof -
  obtain ep opts where ep: "prefix ''/'' ep" and p:
    "\<forall>calls. perform this net op calls =
       (case fst (request this net ep opts (uploads op) calls) of
          Inl e \<Rightarrow> thrown op e
        | Inr v \<Rightarrow> returned op v,
        snd (request this net ep opts (uploads op) calls))"
    using perform_settles [of this net op] unfolding settles_def by blast
  show ?thesis
    by (rule exI [of _ ep], rule exI [of _ opts])
       (simp add: ep p request_with_token [OF assms] split: sum.splits)
qed

lemma perform_answered:
  assumes "str_truthy (accessToken (credentials this))"
    and "net calls (last (snd (perform this net op calls))) = Inr r"
  shows "\<exists>ep. fst (perform this net op calls) =
     (case interpret_response ep r of
        Inl e \<Rightarrow> thrown op e
      | Inr v \<Rightarrow> returned op v)"
proof -
  obtain ep opts where p:
    "perform this net op calls =
       (case net calls (the_call this ep opts (uploads op)) of
          Inl e \<Rightarrow> thrown op e
        | Inr r \<Rightarrow>
            (case interpret_response ep r of
               Inl e \<Rightarrow> thrown op e
             | Inr v \<Rightarrow> returned op v),
        calls @ [the_call this ep opts (uploads op)])"
    using perform_with_token [OF assms(1), of net op calls] by blast
  have "net calls (the_call this ep opts (uploads op)) = Inr r"
    using assms(2) by (simp add: p)
  then have "fst (perform this net op calls) =
     (case interpret_response ep r of
        Inl e \<Rightarrow> thrown op e
      | Inr v \<Rightarrow> returned op v)"
    by (simp add: p)
  then show ?thesis ..
qed

lemma interpret_response_401:
  "status r = 401 \<Longrightarrow>
   interpret_response ep r =
     Inl (AuthenticationError ''Authentication failed. Check your OAuth access token.'')"
  by (simp add: interpret_response_def)

lemma interpret_response_ok:
  assumes "response_ok r"
  shows "interpret_response ep r =
     (if status r = 204 then Inr Undefined
      else if (\<exists>ct. headers_get (response_headers r) ''content-type'' = Some ct
                  \<and> str_includes ct ''application/json'')
      then JSON_parse (response_text r)
      else Inr (JStr (response_text r)))"
proof -
  have "status r \<noteq> 429" "status r \<noteq> 401" "status r \<noteq> 403" "status r \<noteq> 404"
    using assms by (simp_all add: response_ok_def)
  then show ?thesis
    using assms
    by (cases "headers_get (response_headers r) ''content-type''")
       (simp_all add: interpret_response_def)
qed

lemma interpret_response_other:
  assumes "\<not> response_ok r"
    and "status r \<noteq> 429" and "status r \<noteq> 401" and "status r \<noteq> 403" and "status r \<noteq> 404"
  shows "interpret_response ep r =
     Inl (GoogleDriveApiError
       (case JSON_parse (response_text r) of
          Inl e \<Rightarrow> JStr (''API error: '' @ dec (status r))
        | Inr errorJson \<Rightarrow>
            js_or (opt_prop (opt_prop errorJson ''error'') ''message'')
              (js_or (opt_prop errorJson ''message'') (JStr (''API error: '' @ dec (status r)))))
       (status r))"
  using assms
  by (cases "JSON_parse (response_text r)")
     (simp_all add: interpret_response_def Let_def error_message_chain del: dec.simps)

lemma perform_401:
  assumes "str_truthy (accessToken (credentials this))"
    and "net calls (last (snd (perform this net op calls))) = Inr r"
    and "status r = 401"
  shows "fst (perform this net op calls) =
     thrown op (AuthenticationError ''Authentication failed. Check your OAuth access token.'')"
  using perform_answered [where net = net and calls = calls, OF assms(1,2)] by (auto simp: interpret_response_401 [OF assms(3)])

lemma perform_success:
  assumes "str_truthy (accessToken (credentials this))"
    and "net calls (last (snd (perform this net op calls))) = Inr r"
    and "response_ok r"
  shows "fst (perform this net op calls) =
     (case (if status r = 204 then Inr Undefined
            else if (\<exists>ct. headers_get (response_headers r) ''content-type'' = Some ct
                        \<and> str_includes ct ''application/json'')
            then JSON_parse (response_text r)
            else Inr (JStr (response_text r))) of
        Inl e \<Rightarrow> thrown op e
      | Inr payload \<Rightarrow> returned op payload)"
  using perform_answered [where net = net and calls = calls, OF assms(1,2)] by (auto simp: interpret_response_ok [OF assms(3)])

lemma perform_other_status:
  assumes "str_truthy (accessToken (credentials this))"
    and "net calls (last (snd (perform this net op calls))) = Inr r"
    and "\<not> response_ok r"
    and "status r \<noteq> 429" and "status r \<noteq> 401" and "status r \<noteq> 403" and "status r \<noteq> 404"
  shows "fst (perform this net op calls) =
     thrown op (GoogleDriveApiError
       (case JSON_parse (response_text r) of
          Inl e \<Rightarrow> JStr (''API error: '' @ dec (status r))
        | Inr errorJson \<Rightarrow>
            js_or (opt_prop (opt_prop errorJson ''error'') ''message'')
              (js_or (opt_prop errorJson ''message'') (JStr (''API error: '' @ dec (status r)))))
       (status r))"
  using perform_answered [where net = net and calls = calls, OF assms(1,2)]
  by (auto simp: interpret_response_other [OF assms(3-7)])

lemma returned_listing:
  "resource_array op = Some key \<Longrightarrow> returned op response = paginated key response"
  by (induction op rule: resource_array.induct) simp_all

lemma paginated_shape:
  "paginated key response =
     (if response = Undefined \<or> response = JNull then Inl TypeError
      else Inr (JObj [(''items'', js_or (opt_prop response key) (JArr [])),
                      (''hasMore'',
                       JBool (case opt_prop response ''nextPageToken'' of
                                JStr token \<Rightarrow> token \<noteq> []
                              | other \<Rightarrow> truthy other)),
                      (''nextPageToken'', opt_prop response ''nextPageToken'')]))"
proof (cases "response = Undefined \<or> response = JNull")
  case True
  then show ?thesis by (simp add: paginated_nullish)
next
  case False
  have "truthy v = (case v of JStr token \<Rightarrow> token \<noteq> [] | other \<Rightarrow> truthy other)" for v
    by (cases v) simp_all
  then show ?thesis
    using False by (simp add: paginated_defined)
qed

lemma perform_listing:
  assumes "str_truthy (accessToken (credentials this))"
    and "resource_array op = Some key"
    and "net calls (last (snd (perform this net op calls))) = Inr r"
    and "interpret_response ep r = Inr response"
  shows "fst (perform this net op calls) = paginated key response"
proof -
  obtain ep' where
    "fst (perform this net op calls) =
       (case interpret_response ep' r of
          Inl e \<Rightarrow> thrown op e
        | Inr v \<Rightarrow> returned op v)"
    using perform_answered [where net = net and calls = calls, OF assms(1,3)] by blast
  moreover have "interpret_response ep' r = Inr response"
    using assms(4) by (rule interpret_response_success)
  ultimately show ?thesis
    by (simp add: returned_listing [OF assms(2)])
qed


definition unauthorized :: Response where
  "unauthorized = \<lparr>status = 401, response_headers = [], response_text = ''denied''\<rparr>"

definition backend_error :: Response where
  "backend_error =
     \<lparr>status = 500, response_headers = [],
      response_text = ''{\"error\":{\"code\":500,\"message\":\"Backend Error\"}}''\<rparr>"

definition quota_error :: Response where
  "quota_error =
     \<lparr>status = 400, response_headers = [], response_text = ''{\"message\":\"Quota exceeded\"}''\<rparr>"

definition bad_gateway :: Response where
  "bad_gateway =
     \<lparr>status = 502, response_headers = [], response_text = ''<html>Bad Gateway</html>''\<rparr>"




text \<open>
  C6. When the call of an operation is answered with status 401, whatever the operation,
  its method and whatever else the response carries, every operation other than
  \<open>testConnection\<close> fails with the AuthenticationError of a rejected token;
  \<open>testConnection\<close> catches that error and resolves with \<open>{connected: false, message}\<close>.
\<close>

theorem C6_status_401_authentication_error:
  assumes "str_truthy (accessToken (credentials this))"
    and "net calls (last (snd (perform this net op calls))) = Inr r"
    and "status r = 401"
  shows "fst (perform this net op calls) =
     (case op of
        AboutOp (TestConnection message_of) \<Rightarrow>
          Inr (JObj [(''connected'', JBool False),
                     (''message'', message_of (AuthenticationError
                        ''Authentication failed. Check your OAuth access token.''))])
      | _ \<Rightarrow> Inl (AuthenticationError ''Authentication failed. Check your OAuth access token.''))"
  using perform_401 [where net = net and calls = calls, OF assms] by (simp add: thrown_cases)

theorem C6_status_401_witness:
  "fst (perform example_client (\<lambda>calls call. Inr unauthorized)
          (DriveOp (UpdateDrive ''d1'' (JObj [(''name'', JStr ''Team'')]))) []) =
     Inl (AuthenticationError ''Authentication failed. Check your OAuth access token.'') \<and>
   fst (perform example_client (\<lambda>calls call. Inr unauthorized)
          (FileOp (DeleteFile ''f1'')) []) =
     Inl (AuthenticationError ''Authentication failed. Check your OAuth access token.'')"
  using C6_status_401_authentication_error
    [where this = example_client and net = "\<lambda>calls call. Inr unauthorized" and r = unauthorized
       and op = "DriveOp (UpdateDrive ''d1'' (JObj [(''name'', JStr ''Team'')]))" and calls = "[]"]
    C6_status_401_authentication_error
    [where this = example_client and net = "\<lambda>calls call. Inr unauthorized" and r = unauthorized
       and op = "FileOp (DeleteFile ''f1'')" and calls = "[]"]
  by (simp add: example_client_token unauthorized_def)

theorem C6_testConnection_counterexample:
  "\<forall>message_of.
     fst (perform example_client (\<lambda>calls call. Inr unauthorized)
            (AboutOp (TestConnection message_of)) []) =
       Inr (JObj [(''connected'', JBool False),
                  (''message'', message_of (AuthenticationError
                     ''Authentication failed. Check your OAuth access token.''))])"
proof
  fix message_of
  from perform_401
    [where this = example_client and net = "\<lambda>calls call. Inr unauthorized" and r = unauthorized
       and calls = "[]" and op = "AboutOp (TestConnection message_of)"]
  show "fst (perform example_client (\<lambda>calls call. Inr unauthorized)
            (AboutOp (TestConnection message_of)) []) =
       Inr (JObj [(''connected'', JBool False),
                  (''message'', message_of (AuthenticationError
                     ''Authentication failed. Check your OAuth access token.''))])"
    by (simp add: example_client_token unauthorized_def)
qed

lemma parse_message_body:
  "JSON_parse ''{\"message\":\"Quota exceeded\"}'' = Inr (JObj [(''message'', JStr ''Quota exceeded'')])"
  by (simp add: JSON_parse_def skip_ws_def is_ws_def)

text \<open>
  C8. When the call of an operation is answered with a status that is neither 2xx nor
  429, 401, 403 or 404, the pipeline throws a GoogleDriveApiError that carries the
  status. Its message is the \<open>error.message\<close> of the parsed body when that is truthy, else
  the body's \<open>message\<close> when that is truthy, else \<open>API error: <status>\<close>; a body that is
  not JSON, or has no such fields, gives the last. Every operation other than
  \<open>testConnection\<close> fails with that error; \<open>testConnection\<close> catches it and resolves
  with \<open>{connected: false, message}\<close>.
\<close>

theorem C8_other_status_generic_api_error:
  assumes "str_truthy (accessToken (credentials this))"
    and "net calls (last (snd (perform this net op calls))) = Inr r"
    and "status r < 200 \<or> 299 < status r"
    and "status r \<noteq> 429" and "status r \<noteq> 401" and "status r \<noteq> 403" and "status r \<noteq> 404"
    and "message =
       (case JSON_parse (response_text r) of
          Inl e \<Rightarrow> JStr (''API error: '' @ dec (status r))
        | Inr errorJson \<Rightarrow>
            js_or (opt_prop (opt_prop errorJson ''error'') ''message'')
              (js_or (opt_prop errorJson ''message'') (JStr (''API error: '' @ dec (status r)))))"
  shows "fst (perform this net op calls) =
     (case op of
        AboutOp (TestConnection message_of) \<Rightarrow>
          Inr (JObj [(''connected'', JBool False),
                     (''message'', message_of (GoogleDriveApiError message (status r)))])
      | _ \<Rightarrow> Inl (GoogleDriveApiError message (status r)))"
proof -
  have "\<not> response_ok r"
    using assms(3) by (auto simp: response_ok_def)
  from perform_other_status [where net = net and calls = calls, OF assms(1,2) this assms(4-7)] show ?thesis
    unfolding assms(8) by (simp add: thrown_cases)
qed

theorem C8_other_status_witness:
  "fst (perform example_client (\<lambda>calls call. Inr backend_error)
          (FileOp (GetFile ''f1'' None)) []) =
     Inl (GoogleDriveApiError (JStr ''Backend Error'') 500) \<and>
   fst (perform example_client (\<lambda>calls call. Inr quota_error)
          (FileOp (CopyFile ''f1'' (JObj []))) []) =
     Inl (GoogleDriveApiError (JStr ''Quota exceeded'') 400) \<and>
   fst (perform example_client (\<lambda>calls call. Inr bad_gateway)
          (FileOp (DownloadFile ''f1'')) []) =
     Inl (GoogleDriveApiError (JStr ''API error: 502'') 502)"
  using C8_other_status_generic_api_error
    [where this = example_client and net = "\<lambda>calls call. Inr backend_error" and r = backend_error
       and op = "FileOp (GetFile ''f1'' None)" and calls = "[]", OF _ _ _ _ _ _ _ refl]
    C8_other_status_generic_api_error
    [where this = example_client and net = "\<lambda>calls call. Inr quota_error" and r = quota_error
       and op = "FileOp (CopyFile ''f1'' (JObj []))" and calls = "[]", OF _ _ _ _ _ _ _ refl]
    C8_other_status_generic_api_error
    [where this = example_client and net = "\<lambda>calls call. Inr bad_gateway" and r = bad_gateway
       and op = "FileOp (DownloadFile ''f1'')" and calls = "[]", OF _ _ _ _ _ _ _ refl]
  by (simp add: example_client_token backend_error_def quota_error_def bad_gateway_def
        parse_error_body parse_message_body parse_html_body opt_prop_def get_prop_def js_or_def
        dec.simps)

theorem C8_testConnection_counterexample:
  "\<forall>message_of.
     fst (perform example_client (\<lambda>calls call. Inr backend_error)
            (AboutOp (TestConnection message_of)) []) =
       Inr (JObj [(''connected'', JBool False),
                  (''message'', message_of (GoogleDriveApiError (JStr ''Backend Error'') 500))])"
proof
  fix message_of
  from perform_other_status
    [where this = example_client and net = "\<lambda>calls call. Inr backend_error" and r = backend_error
       and calls = "[]" and op = "AboutOp (TestConnection message_of)"]
  show "fst (perform example_client (\<lambda>calls call. Inr backend_error)
            (AboutOp (TestConnection message_of)) []) =
       Inr (JObj [(''connected'', JBool False),
                  (''message'', message_of (GoogleDriveApiError (JStr ''Backend Error'') 500))])"
    by (simp add: example_client_token backend_error_def response_ok_def
          parse_error_body opt_prop_def get_prop_def js_or_def)
qed

definition no_content :: Response where
  "no_content = \<lparr>status = 204, response_headers = [], response_text = []\<rparr>"

definition json_file :: Response where
  "json_file =
     \<lparr>status = 200,
      response_headers = [(''Content-Type'', ''application/json; charset=UTF-8'')],
      response_text = ''{ \"id\": \"f1\" }''\<rparr>"

definition exported_text :: Response where
  "exported_text =
     \<lparr>status = 200, response_headers = [(''Content-Type'', ''text/plain'')],
      response_text = ''{\"id\":\"f1\"}''\<rparr>"

definition broken_json :: Response where
  "broken_json =
     \<lparr>status = 200, response_headers = [(''Content-Type'', ''application/json'')],
      response_text = ''<html>Bad Gateway</html>''\<rparr>"

definition capitalised_json :: Response where
  "capitalised_json =
     \<lparr>status = 200, response_headers = [(''Content-Type'', ''Application/JSON'')],
      response_text = ''{\"id\":\"f1\"}''\<rparr>"

lemma parse_spaced_body:
  "JSON_parse ''{ \"id\": \"f1\" }'' = Inr (JObj [(''id'', JStr ''f1'')])"
  by (simp add: JSON_parse_def skip_ws_def is_ws_def)

text \<open>
  C7. When the call of an operation is answered with a 2xx status, the payload the
  operation gets is shaped by the status and the content type: 204 gives \<open>undefined\<close> (no
  payload); any other 2xx status whose content-type header contains the text
  \<open>application/json\<close>, in lower case, gives what parsing the body as JSON gives, and the
  SyntaxError of the parser when the body is not JSON; any other 2xx status gives the
  body text as it is. The operation returns what it makes of that payload, and does with
  the SyntaxError what it does with every error thrown by the pipeline.
\<close>

theorem C7_success_shaped_by_status_and_content_type:
  assumes "str_truthy (accessToken (credentials this))"
    and "net calls (last (snd (perform this net op calls))) = Inr r"
    and "200 \<le> status r" and "status r \<le> 299"
  shows "fst (perform this net op calls) =
     (case (if status r = 204 then Inr Undefined
            else if (\<exists>ct. headers_get (response_headers r) ''content-type'' = Some ct
                        \<and> str_includes ct ''application/json'')
            then JSON_parse (response_text r)
            else Inr (JStr (response_text r))) of
        Inl e \<Rightarrow> thrown op e
      | Inr payload \<Rightarrow> returned op payload)"
proof -
  have "response_ok r"
    using assms(3,4) by (simp add: response_ok_def)
  from perform_success [where net = net and calls = calls, OF assms(1,2) this]
  show ?thesis .
qed

theorem C7_success_witness:
  "fst (perform example_client (\<lambda>calls call. Inr no_content) (FileOp (DeleteFile ''f1'')) []) =
     Inr Undefined \<and>
   fst (perform example_client (\<lambda>calls call. Inr no_content) (FileOp (GetFile ''f1'' None)) []) =
     Inr Undefined \<and>
   fst (perform example_client (\<lambda>calls call. Inr json_file) (FileOp (GetFile ''f1'' None)) []) =
     Inr (JObj [(''id'', JStr ''f1'')]) \<and>
   fst (perform example_client (\<lambda>calls call. Inr exported_text)
          (FileOp (ExportFile ''f1'' ''text/plain'')) []) =
     Inr (JStr ''{\"id\":\"f1\"}'') \<and>
   fst (perform example_client (\<lambda>calls call. Inr broken_json) (FileOp (GetFile ''f1'' None)) []) =
     Inl SyntaxError"
  using C7_success_shaped_by_status_and_content_type
    [where this = example_client and net = "\<lambda>calls call. Inr no_content" and r = no_content
       and op = "FileOp (DeleteFile ''f1'')" and calls = "[]"]
    C7_success_shaped_by_status_and_content_type
    [where this = example_client and net = "\<lambda>calls call. Inr no_content" and r = no_content
       and op = "FileOp (GetFile ''f1'' None)" and calls = "[]"]
    C7_success_shaped_by_status_and_content_type
    [where this = example_client and net = "\<lambda>calls call. Inr json_file" and r = json_file
       and op = "FileOp (GetFile ''f1'' None)" and calls = "[]"]
    C7_success_shaped_by_status_and_content_type
    [where this = example_client and net = "\<lambda>calls call. Inr exported_text" and r = exported_text
       and op = "FileOp (ExportFile ''f1'' ''text/plain'')" and calls = "[]"]
    C7_success_shaped_by_status_and_content_type
    [where this = example_client and net = "\<lambda>calls call. Inr broken_json" and r = broken_json
       and op = "FileOp (GetFile ''f1'' None)" and calls = "[]"]
  by (simp add: example_client_token no_content_def json_file_def exported_text_def
        broken_json_def headers_get_def ascii_lower_def parse_spaced_body parse_html_body
        returns_void_def)

text \<open>
  A JSON body sent with the content type \<open>Application/JSON\<close> is returned as text, not
  parsed.
\<close>

theorem C7_capitalised_content_type_counterexample:
  "fst (perform example_client (\<lambda>calls call. Inr capitalised_json) (FileOp (GetFile ''f1'' None)) []) =
     Inr (JStr ''{\"id\":\"f1\"}'')"
  using perform_success
    [where this = example_client and net = "\<lambda>calls call. Inr capitalised_json"
       and r = capitalised_json and op = "FileOp (GetFile ''f1'' None)" and calls = "[]"]
  by (simp add: example_client_token capitalised_json_def response_ok_def headers_get_def
        ascii_lower_def)

definition empty_token_page :: Response where
  "empty_token_page =
     \<lparr>status = 200,
      response_headers = [(''Content-Type'', ''application/json; charset=UTF-8'')],
      response_text = ''{\"files\":[{\"id\":\"a\"}],\"nextPageToken\":\"\"}''\<rparr>"

lemma interpret_empty_token_page:
  "interpret_response ep empty_token_page =
     Inr (JObj [(''files'', JArr [JObj [(''id'', JStr ''a'')]]), (''nextPageToken'', JStr [])])"
  by (simp add: interpret_response_def empty_token_page_def response_ok_def headers_get_def
        ascii_lower_def JSON_parse_def skip_ws_def is_ws_def)

lemma interpret_no_content: "interpret_response ep no_content = Inr Undefined"
  by (simp add: interpret_response_def no_content_def response_ok_def)

text \<open>
  C1. Every listing (listFiles, listFolderContents, listPermissions, listComments,
  listReplies, listRevisions, listDrives, listAccessProposals) turns the payload of a
  successful response into \<open>{items, hasMore, nextPageToken}\<close>: \<open>nextPageToken\<close> is the
  payload's \<open>nextPageToken\<close> as it is (\<open>undefined\<close> when the payload has none);
  \<open>hasMore\<close> is true exactly when that token is truthy, which for a string is when it is
  not empty, so an empty token is forwarded with \<open>hasMore\<close> false; \<open>items\<close> is the
  payload's resource array, or the empty array when that is missing. When the payload is
  \<open>undefined\<close> (status 204) or \<open>null\<close> the listing throws a TypeError.
\<close>

theorem C1_listing_pagination:
  assumes "str_truthy (accessToken (credentials this))"
    and "resource_array op = Some key"
    and "net calls (last (snd (perform this net op calls))) = Inr r"
    and "interpret_response ep r = Inr response"
  shows "fst (perform this net op calls) =
     (if response = Undefined \<or> response = JNull then Inl TypeError
      else Inr (JObj [(''items'', js_or (opt_prop response key) (JArr [])),
                      (''hasMore'',
                       JBool (case opt_prop response ''nextPageToken'' of
                                JStr token \<Rightarrow> token \<noteq> []
                              | other \<Rightarrow> truthy other)),
                      (''nextPageToken'', opt_prop response ''nextPageToken'')]))"
  using perform_listing [where net = net and calls = calls, OF assms]
  by (simp only: paginated_shape)

theorem C1_listing_witness:
  "fst (perform example_client (\<lambda>cs c. Inr files_page) (FileOp (ListFiles no_params)) []) =
     Inr (JObj [(''items'', JArr [JObj [(''id'', JStr ''a'')]]),
                (''hasMore'', JBool True),
                (''nextPageToken'', JStr ''tok2'')]) \<and>
   fst (perform example_client (\<lambda>cs c. Inr last_page) (RevisionOp (ListRevisions ''f1'' None None)) []) =
     Inr (JObj [(''items'', JArr []), (''hasMore'', JBool False), (''nextPageToken'', Undefined)]) \<and>
   fst (perform example_client (\<lambda>cs c. Inr no_content) (DriveOp (ListDrives None None None None)) []) =
     Inl TypeError"
  using C1_listing_pagination
    [where this = example_client and net = "\<lambda>cs c. Inr files_page" and r = files_page
       and response = "JObj [(''files'', JArr [JObj [(''id'', JStr ''a'')]]), (''nextPageToken'', JStr ''tok2'')]"
       and op = "FileOp (ListFiles no_params)" and key = "''files''" and calls = "[]" and ep = "[]"]
    C1_listing_pagination
    [where this = example_client and net = "\<lambda>cs c. Inr last_page" and r = last_page
       and response = "JObj [(''kind'', JStr ''drive#fileList'')]"
       and op = "RevisionOp (ListRevisions ''f1'' None None)" and key = "''revisions''"
       and calls = "[]" and ep = "[]"]
    C1_listing_pagination
    [where this = example_client and net = "\<lambda>cs c. Inr no_content" and r = no_content
       and response = Undefined
       and op = "DriveOp (ListDrives None None None None)" and key = "''drives''"
       and calls = "[]" and ep = "[]"]
  by (simp add: example_client_token interpret_files_page interpret_last_page
        interpret_no_content opt_prop_def get_prop_def js_or_def)

text \<open>
  A response whose \<open>nextPageToken\<close> is the empty string carries a token, and the listing
  forwards it, with \<open>hasMore\<close> false.
\<close>

theorem C1_empty_token_counterexample:
  "fst (perform example_client (\<lambda>cs c. Inr empty_token_page) (FileOp (ListFiles no_params)) []) =
     Inr (JObj [(''items'', JArr [JObj [(''id'', JStr ''a'')]]),
                (''hasMore'', JBool False),
                (''nextPageToken'', JStr [])])"
  using perform_listing
    [where this = example_client and net = "\<lambda>cs c. Inr empty_token_page" and r = empty_token_page
       and response = "JObj [(''files'', JArr [JObj [(''id'', JStr ''a'')]]), (''nextPageToken'', JStr [])]"
       and op = "FileOp (ListFiles no_params)" and key = "''files''" and calls = "[]" and ep = "[]"]
  by (simp add: example_client_token interpret_empty_token_page paginated_def
        opt_prop_def get_prop_def js_or_def)








section \<open>Reading back what \<open>JSON.stringify\<close> writes\<close>

text \<open>
  The values for which parsing is shown to undo serialisation: \<open>null\<close>, booleans,
  strings, and arrays and objects of such values, an object having each key once. (A
  number is serialised as its literal and \<open>undefined\<close> is dropped or written
  \<open>null\<close>; neither occurs in the metadata of a file.)
\<close>

fun plain :: "jsval \<Rightarrow> bool"
  and plain_list :: "jsval list \<Rightarrow> bool"
  and plain_members :: "(string \<times> jsval) list \<Rightarrow> bool"
where
  "plain Undefined = False"
| "plain JNull = True"
| "plain (JBool b) = True"
| "plain (JNum l) = False"
| "plain (JStr s) = True"
| "plain (JArr vs) = plain_list vs"
| "plain (JObj kvs) = (distinct (map fst kvs) \<and> plain_members kvs)"
| "plain_list [] = True"
| "plain_list (v # vs) = (plain v \<and> plain_list vs)"
| "plain_members [] = True"
| "plain_members ((k, v) # kvs) = (plain v \<and> plain_members kvs)"

lemma hex_digit_roundtrip:
  assumes "n < 16"
  shows "is_hex (hex_digit n)" and "hex_val (hex_digit n) = n"
proof -
  from assms have "n \<in> {0, 1, 2, 3, 4, 5, 6, 7, 8, 9, 10, 11, 12, 13, 14, 15}"
    by simp arith
  then show "is_hex (hex_digit n)" and "hex_val (hex_digit n) = n"
    by (auto simp: hex_digit_def is_hex_def hex_val_def is_digit_def)
qed

lemma hex4_control:
  assumes "n < 32"
  shows "hex4 (CHR ''0'') (CHR ''0'') (hex_digit (n div 16)) (hex_digit n) = Some n"
proof -
  have a: "n div 16 < 16" "n mod 16 < 16" using assms by simp_all
  have b: "hex_digit n = hex_digit (n mod 16)" by (simp add: hex_digit_def)
  have "hex_val (CHR ''0'') = 0" "is_hex (CHR ''0'')"
    by (simp_all add: hex_val_def is_hex_def is_digit_def)
  then show ?thesis
    unfolding hex4_def b using hex_digit_roundtrip [OF a(1)] hex_digit_roundtrip [OF a(2)]
    by simp
qed

lemma unescape_control:
  assumes "n < 32"
  shows "unescape (CHR ''u'' # CHR ''0'' # CHR ''0'' # hex_digit (n div 16) # hex_digit n # s)
         = Some ([char_of n], s)"
  using assms by (simp add: hex4_control utf8_encode_def)

lemma parse_chars_quote_char:
  "parse_chars (quote_char c @ s) =
     (case parse_chars s of None \<Rightarrow> None | Some (t, r) \<Rightarrow> Some (c # t, r))"
proof -
  consider (special) "c \<in> {CHR 0x22, CHR 0x5C, CHR 0x08, CHR 0x09, CHR 0x0A, CHR 0x0C, CHR 0x0D}"
    | (control) "c \<notin> {CHR 0x22, CHR 0x5C, CHR 0x08, CHR 0x09, CHR 0x0A, CHR 0x0C, CHR 0x0D}"
        "(of_char c :: nat) < 32"
    | (ordinary) "c \<notin> {CHR 0x22, CHR 0x5C, CHR 0x08, CHR 0x09, CHR 0x0A, CHR 0x0C, CHR 0x0D}"
        "\<not> (of_char c :: nat) < 32"
    by blast
  then show ?thesis
  proof cases
    case special
    then show ?thesis
      by (auto simp: quote_char_def split: option.splits)
  next
    case control
    have "quote_char c = [CHR 0x5C, CHR ''u'', CHR ''0'', CHR ''0'',
        hex_digit (of_char c div 16), hex_digit (of_char c)]"
      using control by (simp add: quote_char_def)
    moreover have "char_of (of_char c :: nat) = c" by simp
    ultimately show ?thesis
      using unescape_control [OF control(2)]
      by (simp del: unescape.simps split: option.splits)
  next
    case ordinary
    then show ?thesis
      by (auto simp: quote_char_def split: option.splits)
  qed
qed

lemma parse_chars_quoted:
  "parse_chars (concat (map quote_char s) @ CHR 0x22 # rest) = Some (s, rest)"
  by (induction s) (simp_all add: parse_chars_quote_char)

text \<open>The text of one member of an object, and the first characters a value can have.\<close>

definition member_text :: "string \<times> jsval \<Rightarrow> string" where
  "member_text kv = quote (fst kv) @ '':'' @ stringified (snd kv)"

definition value_start :: "string \<Rightarrow> bool" where
  "value_start s = (case s of [] \<Rightarrow> False | c # cs \<Rightarrow> c \<in> set ''{[ntf'' \<or> c = CHR 0x22)"

lemma plain_serialize: "plain v \<Longrightarrow> serialize v = Some (stringified v)"
  by (cases v) (simp_all add: stringified_def JSON_stringify_def)

lemma plain_list_texts:
  "plain_list vs \<Longrightarrow>
   map (\<lambda>v. case serialize v of None \<Rightarrow> ''null'' | Some t \<Rightarrow> t) vs = map stringified vs"
  by (induction vs) (simp_all add: plain_serialize)

lemma plain_members_texts:
  "plain_members kvs \<Longrightarrow>
   concat (map (\<lambda>(k, v). case serialize v of None \<Rightarrow> [] | Some t \<Rightarrow> [quote k @ '':'' @ t]) kvs)
     = map member_text kvs"
  by (induction kvs) (auto simp: plain_serialize member_text_def)

lemma stringified_JArr:
  "plain_list vs \<Longrightarrow> stringified (JArr vs) = ''['' @ join '','' (map stringified vs) @ '']''"
  by (simp add: stringified_def JSON_stringify_def plain_list_texts)

lemma stringified_JObj:
  "plain_members kvs \<Longrightarrow> stringified (JObj kvs) = ''{'' @ join '','' (map member_text kvs) @ ''}''"
  by (simp add: stringified_def JSON_stringify_def plain_members_texts)

lemma stringified_atoms:
  "stringified JNull = ''null''"
  "stringified (JBool True) = ''true''"
  "stringified (JBool False) = ''false''"
  "stringified (JStr s) = quote s"
  by (simp_all add: stringified_def JSON_stringify_def String_of_bool_def)

lemma value_start_plain: "plain v \<Longrightarrow> value_start (stringified v @ r)"
proof (cases v)
  case (JBool b)
  then show ?thesis by (cases b) (simp_all add: stringified_atoms value_start_def)
qed (simp_all add: stringified_atoms stringified_JArr stringified_JObj value_start_def quote_def)

lemma value_start_member: "value_start (member_text kv @ r)"
  by (simp add: member_text_def quote_def value_start_def)

lemma value_start_join:
  assumes "xs \<noteq> []" and "\<And>x r. x \<in> set xs \<Longrightarrow> value_start (f x @ r)"
  shows "value_start (join '','' (map f xs) @ r)"
proof -
  from assms(1) obtain x ys where xs: "xs = x # ys" by (cases xs) auto
  show ?thesis
  proof (cases ys)
    case Nil
    then show ?thesis using assms(2) [of x r] xs by simp
  next
    case (Cons y zs)
    then have "join '','' (map f xs) @ r = f x @ ('','' @ join '','' (map f (y # zs)) @ r)"
      using xs by simp
    then show ?thesis using assms(2) [of x] xs by simp
  qed
qed

lemma skip_ws_value_start: "value_start s \<Longrightarrow> skip_ws s = s"
  by (cases s) (auto simp: value_start_def skip_ws_def is_ws_def)

lemma value_start_not_close:
  "value_start s \<Longrightarrow> \<exists>c cs. s = c # cs \<and> c \<noteq> CHR '']'' \<and> c \<noteq> CHR ''}''"
  by (cases s) (auto simp: value_start_def)

lemma length_join_Cons:
  "length (join '','' (x # y # ys)) = length x + 1 + length (join '','' (y # ys))"
  by simp

lemma obj_set_fresh: "k \<notin> fst ` set acc \<Longrightarrow> obj_set acc k v = acc @ [(k, v)]"
  by (induction acc) auto

lemma skip_ws_punct:
  "skip_ws (CHR '','' # s) = CHR '','' # s"
  "skip_ws (CHR '']'' # s) = CHR '']'' # s"
  "skip_ws (CHR ''}'' # s) = CHR ''}'' # s"
  "skip_ws (CHR '':'' # s) = CHR '':'' # s"
  by (simp_all add: skip_ws_def is_ws_def)

lemma parse_value_null: "parse_value (Suc m) (''null'' @ rest) = Some (JNull, rest)"
  by simp

lemma parse_value_true: "parse_value (Suc m) (''true'' @ rest) = Some (JBool True, rest)"
  by simp

lemma parse_value_false: "parse_value (Suc m) (''false'' @ rest) = Some (JBool False, rest)"
  by simp

lemma parse_value_string: "parse_value (Suc m) (quote s @ rest) = Some (JStr s, rest)"
  by (simp add: quote_def parse_chars_quoted)

lemma parse_value_empty_array: "parse_value (Suc m) (''[]'' @ rest) = Some (JArr [], rest)"
  by (simp add: skip_ws_def is_ws_def)

lemma parse_value_empty_object: "parse_value (Suc m) (''{}'' @ rest) = Some (JObj [], rest)"
  by (simp add: skip_ws_def is_ws_def)

lemma parse_value_array:
  "value_start s \<Longrightarrow> parse_elements m s = Some (vs, r) \<Longrightarrow>
   parse_value (Suc m) (CHR ''['' # s) = Some (JArr vs, r)"
  using value_start_not_close [of s] by (auto simp: skip_ws_value_start)

lemma parse_value_object:
  "value_start s \<Longrightarrow> parse_members m [] s = Some (kvs, r) \<Longrightarrow>
   parse_value (Suc m) (CHR ''{'' # s) = Some (JObj kvs, r)"
  using value_start_not_close [of s] by (auto simp: skip_ws_value_start)

lemma parse_elements_last:
  "parse_value m s = Some (v, CHR '']'' # rest) \<Longrightarrow> parse_elements (Suc m) s = Some ([v], rest)"
  by (simp add: skip_ws_punct)

lemma parse_elements_more:
  "parse_value m s = Some (v, CHR '','' # s') \<Longrightarrow> value_start s' \<Longrightarrow>
   parse_elements m s' = Some (vs, rest) \<Longrightarrow> parse_elements (Suc m) s = Some (v # vs, rest)"
  by (simp add: skip_ws_value_start skip_ws_punct)

lemma parse_members_last:
  "value_start s \<Longrightarrow> parse_value m s = Some (v, CHR ''}'' # rest) \<Longrightarrow>
   parse_members (Suc m) acc (quote k @ CHR '':'' # s) = Some (obj_set acc k v, rest)"
  by (simp add: quote_def parse_chars_quoted skip_ws_value_start skip_ws_punct)

lemma parse_members_more:
  "value_start s \<Longrightarrow> parse_value m s = Some (v, CHR '','' # s') \<Longrightarrow> value_start s' \<Longrightarrow>
   parse_members (Suc m) acc (quote k @ CHR '':'' # s) = parse_members m (obj_set acc k v) s'"
  by (simp add: quote_def parse_chars_quoted skip_ws_value_start skip_ws_punct)

lemma plain_list_set: "plain_list vs \<Longrightarrow> v \<in> set vs \<Longrightarrow> plain v"
  by (induction vs) auto

lemma value_start_nonempty: "value_start (s @ []) \<Longrightarrow> 0 < length s"
  by (cases s) (simp_all add: value_start_def)

lemma stringified_nonempty: "plain v \<Longrightarrow> 0 < length (stringified v)"
  using value_start_plain [of v "[]"] by (rule value_start_nonempty)

lemma roundtrip:
  "plain v \<Longrightarrow> length (stringified v) \<le> n \<Longrightarrow>
     parse_value n (stringified v @ rest) = Some (v, rest)"
  "plain_list vs \<Longrightarrow> vs \<noteq> [] \<Longrightarrow> length (join '','' (map stringified vs)) < n \<Longrightarrow>
     parse_elements n (join '','' (map stringified vs) @ CHR '']'' # rest) = Some (vs, rest)"
  "plain_members kvs \<Longrightarrow> kvs \<noteq> [] \<Longrightarrow> distinct (map fst acc @ map fst kvs) \<Longrightarrow>
     length (join '','' (map member_text kvs)) < n \<Longrightarrow>
     parse_members n acc (join '','' (map member_text kvs) @ CHR ''}'' # rest) = Some (acc @ kvs, rest)"
proof (induction v and vs and kvs arbitrary: n rest and n rest and n acc rest
       rule: plain_plain_list_plain_members.induct)
  case 1
  then show ?case by simp
next
  case 2
  then obtain m where "n = Suc m" by (cases n) (simp_all add: stringified_atoms)
  then show ?case by (simp only: stringified_atoms parse_value_null)
next
  case (3 b)
  then obtain m where "n = Suc m" by (cases n; cases b) (simp_all add: stringified_atoms)
  then show ?case
    by (cases b) (simp_all only: stringified_atoms parse_value_true parse_value_false)
next
  case (4 l)
  then show ?case by simp
next
  case (5 s)
  then obtain m where "n = Suc m" by (cases n) (simp_all add: stringified_atoms quote_def)
  then show ?case by (simp only: stringified_atoms parse_value_string)
next
  case (6 vs)
  then have pl: "plain_list vs" by simp
  have shape: "stringified (JArr vs) = ''['' @ join '','' (map stringified vs) @ '']''"
    using pl by (rule stringified_JArr)
  from "6.prems"(2) shape obtain m where n: "n = Suc m" by (cases n) simp_all
  show ?case
  proof (cases "vs = []")
    case True
    then show ?thesis using n shape parse_value_empty_array [of m rest] by simp
  next
    case False
    have "length (join '','' (map stringified vs)) < m"
      using "6.prems"(2) shape n by simp
    then have "parse_elements m (join '','' (map stringified vs) @ CHR '']'' # rest) = Some (vs, rest)"
      using "6.IH" pl False by blast
    moreover have "value_start (join '','' (map stringified vs) @ CHR '']'' # rest)"
      using False pl by (intro value_start_join) (auto intro: value_start_plain plain_list_set)
    ultimately have "parse_value (Suc m) (CHR ''['' # join '','' (map stringified vs) @ CHR '']'' # rest)
        = Some (JArr vs, rest)"
      by (rule parse_value_array [rotated])
    then show ?thesis using n shape by simp
  qed
next
  case (7 kvs)
  then have pl: "plain_members kvs" and dist: "distinct (map fst kvs)" by simp_all
  have shape: "stringified (JObj kvs) = ''{'' @ join '','' (map member_text kvs) @ ''}''"
    using pl by (rule stringified_JObj)
  from "7.prems"(2) shape obtain m where n: "n = Suc m" by (cases n) simp_all
  show ?case
  proof (cases "kvs = []")
    case True
    then show ?thesis using n shape parse_value_empty_object [of m rest] by simp
  next
    case False
    have "length (join '','' (map member_text kvs)) < m"
      using "7.prems"(2) shape n by simp
    then have "parse_members m [] (join '','' (map member_text kvs) @ CHR ''}'' # rest)
        = Some ([] @ kvs, rest)"
      using pl False dist by (intro "7.IH") simp_all
    moreover have "value_start (join '','' (map member_text kvs) @ CHR ''}'' # rest)"
      using False by (intro value_start_join) (auto intro: value_start_member)
    ultimately have "parse_value (Suc m) (CHR ''{'' # join '','' (map member_text kvs) @ CHR ''}'' # rest)
        = Some (JObj kvs, rest)"
      using parse_value_object by simp
    then show ?thesis using n shape by simp
  qed
next
  case 8
  then show ?case by simp
next
  case (9 v vs)
  then have pv: "plain v" and pl: "plain_list vs" by simp_all
  from "9.prems"(3) obtain m where n: "n = Suc m" by (cases n) simp_all
  have pos: "0 < length (stringified v)" using pv by (rule stringified_nonempty)
  show ?case
  proof (cases vs)
    case Nil
    have "length (stringified v) \<le> m" using "9.prems"(3) n Nil by simp
    then have "parse_value m (stringified v @ CHR '']'' # rest) = Some (v, CHR '']'' # rest)"
      using "9.IH"(1) pv by blast
    then have "parse_elements (Suc m) (stringified v @ CHR '']'' # rest) = Some ([v], rest)"
      by (rule parse_elements_last)
    then show ?thesis using n Nil by simp
  next
    case (Cons w ws)
    let ?tail = "join '','' (map stringified vs) @ CHR '']'' # rest"
    have len: "length (stringified v) + 1 + length (join '','' (map stringified vs)) < Suc m"
      using "9.prems"(3) n Cons by simp
    then have "length (stringified v) \<le> m" by simp
    then have a: "parse_value m (stringified v @ CHR '','' # ?tail) = Some (v, CHR '','' # ?tail)"
      using "9.IH"(1) pv by blast
    have b: "value_start ?tail"
      using Cons pl by (intro value_start_join) (auto intro: value_start_plain plain_list_set)
    have "length (join '','' (map stringified vs)) < m" using len pos by simp
    then have c: "parse_elements m ?tail = Some (vs, rest)"
      using "9.IH"(2) pl Cons by blast
    have "parse_elements (Suc m) (stringified v @ CHR '','' # ?tail) = Some (v # vs, rest)"
      using a b c by (rule parse_elements_more)
    then show ?thesis using n Cons by simp
  qed
next
  case 10
  then show ?case by simp
next
  case (11 k v kvs)
  then have pv: "plain v" and pl: "plain_members kvs" by simp_all
  from "11.prems"(4) obtain m where n: "n = Suc m" by (cases n) simp_all
  have fresh: "k \<notin> fst ` set acc" using "11.prems"(3) by auto
  then have os: "obj_set acc k v = acc @ [(k, v)]" by (rule obj_set_fresh)
  have mt: "member_text (k, v) = quote k @ CHR '':'' # stringified v"
    by (simp add: member_text_def)
  have lq: "length (member_text (k, v)) = length (quote k) + 1 + length (stringified v)"
    by (simp add: mt)
  have q2: "2 \<le> length (quote k)" by (simp add: quote_def)
  show ?case
  proof (cases kvs)
    case Nil
    have "length (stringified v) \<le> m" using "11.prems"(4) n Nil lq q2 by simp
    then have a: "parse_value m (stringified v @ CHR ''}'' # rest) = Some (v, CHR ''}'' # rest)"
      using "11.IH"(1) pv by blast
    have "parse_members (Suc m) acc (quote k @ CHR '':'' # stringified v @ CHR ''}'' # rest)
        = Some (obj_set acc k v, rest)"
      using value_start_plain [OF pv] a by (rule parse_members_last)
    then show ?thesis using n Nil os mt by simp
  next
    case (Cons kv' kvs')
    let ?tail = "join '','' (map member_text kvs) @ CHR ''}'' # rest"
    have len: "length (member_text (k, v)) + 1 + length (join '','' (map member_text kvs)) < Suc m"
      using "11.prems"(4) n Cons by simp
    then have "length (stringified v) \<le> m" using lq by simp
    then have a: "parse_value m (stringified v @ CHR '','' # ?tail) = Some (v, CHR '','' # ?tail)"
      using "11.IH"(1) pv by blast
    have b: "value_start ?tail"
      using Cons by (intro value_start_join) (auto intro: value_start_member)
    have step: "parse_members (Suc m) acc (quote k @ CHR '':'' # stringified v @ CHR '','' # ?tail)
        = parse_members m (obj_set acc k v) ?tail"
      using value_start_plain [OF pv] a b by (rule parse_members_more)
    have "length (join '','' (map member_text kvs)) < m" using len lq q2 by simp
    moreover have "distinct (map fst (acc @ [(k, v)]) @ map fst kvs)" using "11.prems"(3) by simp
    ultimately have "parse_members m (acc @ [(k, v)]) ?tail = Some ((acc @ [(k, v)]) @ kvs, rest)"
      using "11.IH"(2) pl Cons by blast
    then show ?thesis using n Cons os mt step by simp
  qed
qed

lemma JSON_parse_stringified:
  assumes "plain v"
  shows "JSON_parse (stringified v) = Inr v"
proof -
  have "value_start (stringified v @ [])" using assms by (rule value_start_plain)
  then have "skip_ws (stringified v) = stringified v"
    using skip_ws_value_start [of "stringified v"] by simp
  moreover have "parse_value (Suc (length (stringified v))) (stringified v @ []) = Some (v, [])"
    using assms by (intro roundtrip(1)) simp_all
  ultimately show ?thesis
    by (simp add: JSON_parse_def skip_ws_def)
qed

section \<open>The multipart body of a file upload\<close>

text \<open>
  How a reader of \<open>multipart/related\<close> finds the parts: the body is cut at each
  delimiter line (CRLF, two hyphens, the boundary), the last of them followed by two more
  hyphens, and every part is cut at its first empty line into its header and its
  content. \<open>split_first p s\<close> cuts \<open>s\<close> at the first occurrence of \<open>p\<close>;
  \<open>spec_multipart_parts\<close> reads a body of two parts.
\<close>

fun split_first :: "string \<Rightarrow> string \<Rightarrow> (string \<times> string) option" where
  "split_first p [] = (if p = [] then Some ([], []) else None)"
| "split_first p (c # cs) =
     (if prefix p (c # cs) then Some ([], drop (length p) (c # cs))
      else (case split_first p cs of None \<Rightarrow> None | Some (a, b) \<Rightarrow> Some (c # a, b)))"

definition dash_boundary :: string where
  "dash_boundary = [CHR 0x0D, CHR 0x0A] @ ''--'' @ boundary"

definition blank_line :: string where
  "blank_line = [CHR 0x0D, CHR 0x0A, CHR 0x0D, CHR 0x0A]"

definition spec_multipart_parts :: "string \<Rightarrow> ((string \<times> string) \<times> (string \<times> string)) option" where
  "spec_multipart_parts body =
     (case split_first dash_boundary body of
        None \<Rightarrow> None
      | Some (preamble, r0) \<Rightarrow>
          if \<not> prefix [CHR 0x0D, CHR 0x0A] r0 then None
          else
            (case split_first dash_boundary (drop 2 r0) of
               None \<Rightarrow> None
             | Some (part1, r1) \<Rightarrow>
                 if \<not> prefix [CHR 0x0D, CHR 0x0A] r1 then None
                 else
                   (case split_first dash_boundary (drop 2 r1) of
                      None \<Rightarrow> None
                    | Some (part2, r2) \<Rightarrow>
                        if \<not> prefix ''--'' r2 then None
                        else
                          (case split_first blank_line part1 of
                             None \<Rightarrow> None
                           | Some (h1, b1) \<Rightarrow>
                               (case split_first blank_line part2 of
                                  None \<Rightarrow> None
                                | Some (h2, b2) \<Rightarrow> Some ((h1, b1), (h2, b2)))))))"

lemma split_first_here: "split_first p (p @ rest) = Some ([], rest)"
proof (cases "p @ rest")
  case Nil
  then show ?thesis by simp
next
  case (Cons a l)
  have pre: "prefix p (a # l)" unfolding Cons [symmetric] by simp
  have dr: "drop (length p) (a # l) = rest" unfolding Cons [symmetric] by simp
  show ?thesis unfolding Cons using pre dr by simp
qed

lemma split_first_fresh:
  "c \<notin> set xs \<Longrightarrow> split_first (c # p') (xs @ (c # p') @ rest) = Some (xs, rest)"
proof (induction xs)
  case Nil
  show ?case using split_first_here [of "c # p'" rest] by simp
next
  case (Cons x xs)
  then show ?case by simp
qed

lemma prefix_straddle:
  assumes "c \<notin> set p'" and "\<not> prefix (c # p') (x # xs)"
  shows "\<not> prefix (c # p') ((x # xs) @ (c # p') @ rest)"
proof
  assume "prefix (c # p') ((x # xs) @ (c # p') @ rest)"
  then consider "prefix (c # p') (x # xs)"
    | us where "c # p' = (x # xs) @ us" "prefix us ((c # p') @ rest)"
    by (auto simp: prefix_append)
  then show False
  proof cases
    case 1
    then show ?thesis using assms(2) by simp
  next
    case 2
    show ?thesis
    proof (cases us)
      case Nil
      then show ?thesis using 2(1) assms(2) by simp
    next
      case (Cons u us')
      then have "u = c" using 2(2) by simp
      moreover have "u \<in> set p'" using 2(1) Cons by (cases xs) auto
      ultimately show ?thesis using assms(1) by simp
    qed
  qed
qed

lemma split_first_not_included:
  assumes "c \<notin> set p'"
  shows "\<not> str_includes xs (c # p') \<Longrightarrow> split_first (c # p') (xs @ (c # p') @ rest) = Some (xs, rest)"
proof (induction xs)
  case Nil
  show ?case using split_first_here [of "c # p'" rest] by simp
next
  case (Cons x xs)
  then have a: "\<not> prefix (c # p') (x # xs)" and b: "\<not> str_includes xs (c # p')" by simp_all
  have "\<not> prefix (c # p') ((x # xs) @ (c # p') @ rest)"
    using assms a by (rule prefix_straddle)
  then show ?case using Cons.IH [OF b] by simp
qed

lemma str_includes_fresh: "c \<notin> set xs \<Longrightarrow> \<not> str_includes xs (c # p')"
  by (induction xs) auto

lemma str_includes_skip:
  "c \<notin> set xs \<Longrightarrow> str_includes (xs @ ys) (c # p') = str_includes ys (c # p')"
proof (induction xs)
  case Nil
  show ?case by simp
next
  case (Cons x xs)
  then show ?case by (cases ys) auto
qed

lemma hex_digit_not_cr: "hex_digit n \<noteq> CHR 0x0D"
proof -
  have "hex_digit n \<in> set ''0123456789abcdef''"
    unfolding hex_digit_def by (rule nth_mem) simp
  then show ?thesis by auto
qed

lemma quote_char_no_cr: "CHR 0x0D \<notin> set (quote_char c)"
  using hex_digit_not_cr [of "of_char c div 16"] hex_digit_not_cr [of "of_char c"]
  by (auto simp: quote_char_def)

lemma quote_no_cr: "CHR 0x0D \<notin> set (quote s)"
  by (simp add: quote_def quote_char_no_cr)

lemma stringified_no_cr:
  "plain v \<Longrightarrow> CHR 0x0D \<notin> set (stringified v)"
  "plain_list vs \<Longrightarrow> CHR 0x0D \<notin> set (join '','' (map stringified vs))"
  "plain_members kvs \<Longrightarrow> CHR 0x0D \<notin> set (join '','' (map member_text kvs))"
proof (induction v and vs and kvs rule: plain_plain_list_plain_members.induct)
  case (3 b)
  then show ?case by (cases b) (simp_all add: stringified_atoms)
next
  case (5 s)
  then show ?case by (simp add: stringified_atoms quote_no_cr)
next
  case (6 vs)
  then show ?case by (simp add: stringified_JArr)
next
  case (7 kvs)
  then show ?case by (simp add: stringified_JObj)
next
  case (9 v vs)
  then show ?case by (cases vs) simp_all
next
  case (11 k v kvs)
  then show ?case by (cases kvs) (simp_all add: member_text_def quote_no_cr)
qed (simp_all add: stringified_atoms)

lemma plain_list_strings: "plain_list (map JStr ss)"
  by (induction ss) simp_all

lemma createFile_metadata_shape:
  "createFile_metadata params =
     JObj ((''name'', JStr (cf_name params)) #
           (if str_truthy (cf_mimeType params)
            then [(''mimeType'', JStr (str_or (cf_mimeType params) []))] else []) @
           (case cf_parents params of None \<Rightarrow> [] | Some ps \<Rightarrow> [(''parents'', JArr (map JStr ps))]) @
           (if str_truthy (cf_description params)
            then [(''description'', JStr (str_or (cf_description params) []))] else []))"
  by (simp add: createFile_metadata_def put_if_truthy_def opt_str_def opt_strs_def str_truthy_def
        str_or_def split: option.splits)

lemma plain_createFile_metadata: "plain (createFile_metadata params)"
  by (simp add: createFile_metadata_shape plain_list_strings split: option.splits)

lemma dash_boundary_Cons:
  "dash_boundary = CHR 0x0D # (CHR 0x0A # ''--'' @ boundary)"
  "CHR 0x0D \<notin> set (CHR 0x0A # ''--'' @ boundary)"
  by (simp_all add: dash_boundary_def boundary_def)

lemma split_dash:
  "\<not> str_includes xs dash_boundary \<Longrightarrow>
   split_first dash_boundary (xs @ dash_boundary @ rest) = Some (xs, rest)"
  using split_first_not_included [OF dash_boundary_Cons(2), of xs rest]
  by (simp add: dash_boundary_Cons(1))

lemma split_blank:
  "CHR 0x0D \<notin> set xs \<Longrightarrow> split_first blank_line (xs @ blank_line @ rest) = Some (xs, rest)"
  using split_first_fresh [of "CHR 0x0D" xs "[CHR 0x0A, CHR 0x0D, CHR 0x0A]" rest]
  by (simp add: blank_line_def)

lemma dash_not_in_header_and_json:
  assumes "CHR 0x0D \<notin> set h" and "CHR 0x0D \<notin> set j" and "j = CHR ''{'' # j'"
  shows "\<not> str_includes (h @ blank_line @ j) dash_boundary"
proof -
  have "str_includes (h @ blank_line @ j) dash_boundary = str_includes (blank_line @ j) dash_boundary"
    using assms(1) str_includes_skip [of "CHR 0x0D" h "blank_line @ j"]
    by (simp add: dash_boundary_Cons(1))
  moreover have "\<not> str_includes j' dash_boundary"
    using assms(2,3) str_includes_fresh [of "CHR 0x0D" j'] by (simp add: dash_boundary_Cons(1))
  ultimately show ?thesis
    using assms(3) by (simp add: blank_line_def dash_boundary_Cons(1))
qed

lemma dash_not_in_header_and_content:
  assumes "CHR 0x0D \<notin> set h"
    and "\<not> str_includes ([CHR 0x0D, CHR 0x0A] @ content) dash_boundary"
  shows "\<not> str_includes (h @ blank_line @ content) dash_boundary"
proof -
  have "str_includes (h @ blank_line @ content) dash_boundary
      = str_includes (blank_line @ content) dash_boundary"
    using assms(1) str_includes_skip [of "CHR 0x0D" h "blank_line @ content"]
    by (simp add: dash_boundary_Cons(1))
  then show ?thesis
    using assms(2) by (simp add: blank_line_def dash_boundary_Cons(1))
qed

lemma multipartBody_shape:
  "multipartBody metadata mimeType content =
     dash_boundary @ [CHR 0x0D, CHR 0x0A] @
     (''Content-Type: application/json; charset=UTF-8'' @ blank_line @ stringified metadata) @
     dash_boundary @ [CHR 0x0D, CHR 0x0A] @
     ((''Content-Type: '' @ str_or mimeType ''text/plain'') @ blank_line @ content) @
     dash_boundary @ ''--''"
  by (simp add: multipartBody_def delimiter_def closeDelim_def dash_boundary_def blank_line_def)

lemma spec_multipart_parts_text:
  assumes "CHR 0x0D \<notin> set h1" and "CHR 0x0D \<notin> set j" and "j = CHR ''{'' # j'"
    and "CHR 0x0D \<notin> set h2"
    and "\<not> str_includes ([CHR 0x0D, CHR 0x0A] @ c) dash_boundary"
  shows "spec_multipart_parts
     (dash_boundary @ [CHR 0x0D, CHR 0x0A] @ (h1 @ blank_line @ j) @
      dash_boundary @ [CHR 0x0D, CHR 0x0A] @ (h2 @ blank_line @ c) @
      dash_boundary @ ''--'' @ epilogue) = Some ((h1, j), (h2, c))"
proof -
  define p1 where "p1 = h1 @ blank_line @ j"
  define p2 where "p2 = h2 @ blank_line @ c"
  have inc1: "\<not> str_includes p1 dash_boundary"
    unfolding p1_def using assms(1,2,3) by (rule dash_not_in_header_and_json)
  have inc2: "\<not> str_includes p2 dash_boundary"
    unfolding p2_def using assms(4,5) by (rule dash_not_in_header_and_content)
  have b1: "split_first blank_line p1 = Some (h1, j)"
    unfolding p1_def using split_blank [OF assms(1), of j] by simp
  have b2: "split_first blank_line p2 = Some (h2, c)"
    unfolding p2_def using split_blank [OF assms(4), of c] by simp
  show ?thesis
    unfolding p1_def [symmetric] p2_def [symmetric] spec_multipart_parts_def
    by (simp add: split_first_here split_dash [OF inc1] split_dash [OF inc2] b1 b2)
qed

lemma multipart_parts_of_body:
  assumes "plain metadata" and "\<exists>kvs. metadata = JObj kvs"
    and "CHR 0x0D \<notin> set (str_or mimeType ''text/plain'')"
    and "\<not> str_includes ([CHR 0x0D, CHR 0x0A] @ content) dash_boundary"
  shows "spec_multipart_parts (multipartBody metadata mimeType content) =
     Some ((''Content-Type: application/json; charset=UTF-8'', stringified metadata),
           (''Content-Type: '' @ str_or mimeType ''text/plain'', content))"
proof -
  have crj: "CHR 0x0D \<notin> set (stringified metadata)"
    using assms(1) by (rule stringified_no_cr(1))
  from assms(1,2) obtain j' where brace: "stringified metadata = CHR ''{'' # j'"
    by (auto simp: stringified_JObj)
  have "spec_multipart_parts
     (dash_boundary @ [CHR 0x0D, CHR 0x0A] @
      (''Content-Type: application/json; charset=UTF-8'' @ blank_line @ stringified metadata) @
      dash_boundary @ [CHR 0x0D, CHR 0x0A] @
      ((''Content-Type: '' @ str_or mimeType ''text/plain'') @ blank_line @ content) @
      dash_boundary @ ''--'' @ []) =
     Some ((''Content-Type: application/json; charset=UTF-8'', stringified metadata),
           (''Content-Type: '' @ str_or mimeType ''text/plain'', content))"
    using crj brace assms(3,4) by (intro spec_multipart_parts_text) simp_all
  then show ?thesis by (simp add: multipartBody_shape)
qed

lemma createFile_upload_call:
  assumes "str_truthy (accessToken (credentials this))"
    and "cf_content params = Some content" and "content \<noteq> []"
  shows "snd (createFile this net params calls) =
     calls @ [the_call this (''/files?uploadType=multipart&fields='' @ DEFAULT_FILE_FIELDS)
                (multipart_options ''POST''
                   (multipartBody (createFile_metadata params) (cf_mimeType params) content))
                True]"
  using assms by (simp add: createFile_def Let_def str_truthy_def str_or_def request_one_call)

lemma call_body_the_call: "call_body (the_call this ep opts up) = req_body opts"
  by (simp add: the_call_def fetch_args_def)

text \<open>
  C4. For a createFile call with non-empty content in which no line begins with the
  boundary marker (the content, put after a line break, does not contain CRLF, two
  hyphens and the boundary) and whose content type has no carriage return: the one call
  goes to the upload URL, its body read back part by part has the JSON metadata part and
  the content part; the metadata part parses back to the metadata object, which has the
  name, the MIME type and the description when they are non-empty, the parents when they
  are given, and no other key; the content part is the content.
\<close>

theorem C4_multipart_roundtrip:
  assumes "str_truthy (accessToken (credentials this))"
    and "cf_content params = Some content" and "content \<noteq> []"
    and "\<not> str_includes ([CHR 0x0D, CHR 0x0A] @ content) ([CHR 0x0D, CHR 0x0A] @ ''--'' @ boundary)"
    and "CHR 0x0D \<notin> set (str_or (cf_mimeType params) ''text/plain'')"
  shows "\<exists>call body json.
       snd (createFile this net params calls) = calls @ [call]
     \<and> url call = this_uploadUrl this @ ''/files?uploadType=multipart&fields='' @ DEFAULT_FILE_FIELDS
     \<and> call_body call = Some body
     \<and> spec_multipart_parts body =
         Some ((''Content-Type: application/json; charset=UTF-8'', json),
               (''Content-Type: '' @ str_or (cf_mimeType params) ''text/plain'', content))
     \<and> JSON_parse json = Inr (createFile_metadata params)
     \<and> createFile_metadata params =
         JObj ((''name'', JStr (cf_name params)) #
               (if str_truthy (cf_mimeType params)
                then [(''mimeType'', JStr (str_or (cf_mimeType params) []))] else []) @
               (case cf_parents params of None \<Rightarrow> [] | Some ps \<Rightarrow> [(''parents'', JArr (map JStr ps))]) @
               (if str_truthy (cf_description params)
                then [(''description'', JStr (str_or (cf_description params) []))] else []))"
proof -
  let ?meta = "createFile_metadata params"
  let ?body = "multipartBody ?meta (cf_mimeType params) content"
  let ?call = "the_call this (''/files?uploadType=multipart&fields='' @ DEFAULT_FILE_FIELDS)
                 (multipart_options ''POST'' ?body) True"
  have pl: "plain ?meta" by (rule plain_createFile_metadata)
  have obj: "\<exists>kvs. ?meta = JObj kvs" by (simp add: createFile_metadata_shape)
  have dash: "\<not> str_includes ([CHR 0x0D, CHR 0x0A] @ content) dash_boundary"
    using assms(4) by (simp add: dash_boundary_def)
  have "snd (createFile this net params calls) = calls @ [?call]"
    using assms(1,2,3) by (rule createFile_upload_call)
  moreover have "url ?call =
      this_uploadUrl this @ ''/files?uploadType=multipart&fields='' @ DEFAULT_FILE_FIELDS"
    by (simp add: url_the_call)
  moreover have "call_body ?call = Some ?body"
    by (simp add: call_body_the_call multipart_options_def)
  moreover have "spec_multipart_parts ?body =
      Some ((''Content-Type: application/json; charset=UTF-8'', stringified ?meta),
            (''Content-Type: '' @ str_or (cf_mimeType params) ''text/plain'', content))"
    using pl obj assms(5) dash by (rule multipart_parts_of_body)
  moreover have "JSON_parse (stringified ?meta) = Inr ?meta"
    using pl by (rule JSON_parse_stringified)
  ultimately show ?thesis
    using createFile_metadata_shape [of params] by blast
qed

definition markdown_note :: createFile_params where
  "markdown_note =
     \<lparr>cf_name = ''notes.md'', cf_mimeType = Some ''text/markdown'', cf_parents = Some [''folder1''],
      cf_description = None, cf_content = Some ''# Title''\<rparr>"

theorem C4_multipart_roundtrip_witness:
  "\<exists>call body json.
       snd (createFile example_client (\<lambda>cs c. Inr last_page) markdown_note []) = [call]
     \<and> url call = UPLOAD_BASE_URL @ ''/files?uploadType=multipart&fields='' @ DEFAULT_FILE_FIELDS
     \<and> call_body call = Some body
     \<and> spec_multipart_parts body =
         Some ((''Content-Type: application/json; charset=UTF-8'', json),
               (''Content-Type: text/markdown'', ''# Title''))
     \<and> JSON_parse json = Inr (createFile_metadata markdown_note)
     \<and> createFile_metadata markdown_note =
         JObj [(''name'', JStr ''notes.md''), (''mimeType'', JStr ''text/markdown''),
               (''parents'', JArr [JStr ''folder1''])]"
  using C4_multipart_roundtrip
    [where this = example_client and net = "\<lambda>cs c. Inr last_page" and params = markdown_note
       and content = "''# Title''" and calls = "[]"]
  by (simp add: example_client_token markdown_note_def boundary_def str_or_def str_truthy_def
        example_client_def createGoogleDriveClient_def)

text \<open>
  A content with a line that begins with the boundary marker is cut there: the content
  part read back is only what stands before that line.
\<close>

definition colliding_note :: createFile_params where
  "colliding_note =
     \<lparr>cf_name = ''notes.txt'', cf_mimeType = None, cf_parents = None, cf_description = None,
      cf_content = Some (''line1'' @ [CHR 0x0D, CHR 0x0A] @ ''--'' @ boundary @ ''--'')\<rparr>"

lemma colliding_note_text:
  "stringified (createFile_metadata colliding_note) = ''{\"name\":\"notes.txt\"}''"
  by (simp add: createFile_metadata_shape colliding_note_def str_truthy_def stringified_def
        JSON_stringify_def quote_def quote_char_def)

theorem C4_colliding_content_counterexample:
  "call_body (last (snd (createFile example_client (\<lambda>cs c. Inr last_page) colliding_note [])))
     = Some (multipartBody (createFile_metadata colliding_note) None
               (''line1'' @ [CHR 0x0D, CHR 0x0A] @ ''--'' @ boundary @ ''--''))
   \<and> spec_multipart_parts
       (multipartBody (createFile_metadata colliding_note) None
          (''line1'' @ [CHR 0x0D, CHR 0x0A] @ ''--'' @ boundary @ ''--''))
     = Some ((''Content-Type: application/json; charset=UTF-8'', ''{\"name\":\"notes.txt\"}''),
             (''Content-Type: text/plain'', ''line1''))
   \<and> ''line1'' \<noteq> ''line1'' @ [CHR 0x0D, CHR 0x0A] @ ''--'' @ boundary @ ''--''"
proof (intro conjI)
  show "call_body (last (snd (createFile example_client (\<lambda>cs c. Inr last_page) colliding_note [])))
     = Some (multipartBody (createFile_metadata colliding_note) None
               (''line1'' @ [CHR 0x0D, CHR 0x0A] @ ''--'' @ boundary @ ''--''))"
    using createFile_upload_call
      [where this = example_client and net = "\<lambda>cs c. Inr last_page" and params = colliding_note
         and content = "''line1'' @ [CHR 0x0D, CHR 0x0A] @ ''--'' @ boundary @ ''--''" and calls = "[]"]
    by (simp add: example_client_token call_body_the_call multipart_options_def colliding_note_def)
next
  have "spec_multipart_parts
     (dash_boundary @ [CHR 0x0D, CHR 0x0A] @
      (''Content-Type: application/json; charset=UTF-8'' @ blank_line @ ''{\"name\":\"notes.txt\"}'') @
      dash_boundary @ [CHR 0x0D, CHR 0x0A] @
      (''Content-Type: text/plain'' @ blank_line @ ''line1'') @
      dash_boundary @ ''--'' @ (dash_boundary @ ''--'')) =
     Some ((''Content-Type: application/json; charset=UTF-8'', ''{\"name\":\"notes.txt\"}''),
           (''Content-Type: text/plain'', ''line1''))"
    by (rule spec_multipart_parts_text) (simp_all add: dash_boundary_def boundary_def)
  then show "spec_multipart_parts
       (multipartBody (createFile_metadata colliding_note) None
          (''line1'' @ [CHR 0x0D, CHR 0x0A] @ ''--'' @ boundary @ ''--''))
     = Some ((''Content-Type: application/json; charset=UTF-8'', ''{\"name\":\"notes.txt\"}''),
             (''Content-Type: text/plain'', ''line1''))"
    by (simp add: multipartBody_shape colliding_note_text str_or_def dash_boundary_def)
next
  show "''line1'' \<noteq> ''line1'' @ [CHR 0x0D, CHR 0x0A] @ ''--'' @ boundary @ ''--''"
    by simp
qed


section \<open>Properties of the tools\<close>



lemma then_do_rejected:
  "p calls = (Inl e, calls') \<Longrightarrow> then_do p f calls = (Inl e, calls')"
  by (simp add: then_do_def)

lemma then_do_resolved:
  "p calls = (Inr v, calls') \<Longrightarrow> then_do p f calls = f v calls'"
  by (simp add: then_do_def)

























end
